theory Spec2Isabelle
  imports Main "HOL-Library.Word" "HOL-Library.AList"
begin

section \<open>Status values\<close>

text \<open>
  \<^verbatim>\<open>kudu::Status\<close> is either OK or an error code with a message. The class itself
  lives in \<^verbatim>\<open>kudu/util/status.h\<close>; the codes are the ones of the taxonomy the
  repository uses.
\<close>

datatype status_code =
    NotFound | Corruption | NotSupported | InvalidArgument | IOError | AlreadyPresent
  | RuntimeError | NetworkError | IllegalState | NotAuthorized | Aborted | RemoteError
  | ServiceUnavailable | TimedOut

datatype status = OK | Error status_code string

text \<open>The two-argument constructors \<^verbatim>\<open>Status::Corruption(msg, msg2)\<close> join both parts.\<close>

definition Status2 :: "status_code \<Rightarrow> string \<Rightarrow> string \<Rightarrow> status" where
  "Status2 c msg msg2 = Error c (msg @ '': '' @ msg2)"

text \<open>\<^verbatim>\<open>RETURN_NOT_OK_PREPEND(s, msg)\<close> returns \<^verbatim>\<open>s.CloneAndPrepend(msg)\<close> when s is not OK.\<close>

fun CloneAndPrepend :: "string \<Rightarrow> status \<Rightarrow> status" where
  "CloneAndPrepend msg OK = OK"
| "CloneAndPrepend msg (Error c m) = Error c (msg @ '': '' @ m)"

text \<open>
  A function of the catalog either returns a status or the process dies in it: a failed
  \<^verbatim>\<open>CHECK\<close>/\<^verbatim>\<open>CHECK_OK\<close> aborts, and so does a call through a null
  \<^verbatim>\<open>tablet_peer_\<close>.
\<close>

datatype outcome = Returns status | Aborts

section \<open>The catalog schema and its rows\<close>

datatype data_type = UINT8 | INT8 | UINT16 | INT16 | UINT32 | INT32 | UINT64 | INT64 | STRING

record column_schema =
  col_name :: string
  col_type :: data_type

record schema =
  cols :: "column_schema list"
  num_key_columns :: nat

definition kSysCatalogTabletId :: string where
  "kSysCatalogTabletId = ''00000000000000000000000000000000''"

definition kSysCatalogTableColType :: string where
  "kSysCatalogTableColType = ''entry_type''"

definition kSysCatalogTableColId :: string where
  "kSysCatalogTableColId = ''entry_id''"

definition kSysCatalogTableColMetadata :: string where
  "kSysCatalogTableColMetadata = ''metadata''"

text \<open>
  \<^verbatim>\<open>SysCatalogTable::BuildTableSchema\<close>: two key columns and one value column, added in
  this order to a fresh \<^verbatim>\<open>SchemaBuilder\<close>. The three names differ, so none of the three
  \<^verbatim>\<open>CHECK_OK\<close>s of the source can fire.
\<close>

definition BuildTableSchema :: schema where
  "BuildTableSchema =
     \<lparr> cols = [ \<lparr> col_name = kSysCatalogTableColType, col_type = UINT8 \<rparr>,
                \<lparr> col_name = kSysCatalogTableColId, col_type = STRING \<rparr>,
                \<lparr> col_name = kSysCatalogTableColMetadata, col_type = STRING \<rparr> ],
       num_key_columns = 2 \<rparr>"

text \<open>
  Modelled from the spec: the enum of entry types is declared in \<^verbatim>\<open>sys_catalog.h\<close>,
  which is not among the sources; the data model gives TABLES = 0 and TABLETS = 1.
\<close>

definition TABLES_ENTRY :: "8 word" where
  "TABLES_ENTRY = 0"

definition TABLETS_ENTRY :: "8 word" where
  "TABLETS_ENTRY = 1"

text \<open>
  Modelled from the spec: \<^verbatim>\<open>KuduPartialRow\<close> (\<^verbatim>\<open>kudu/common/partial_row.h\<close>) is not
  among the sources. A partial row holds the cells that have been set, by column name; a
  setter fails when the schema has no column of that name or the column has another type,
  and leaves the row alone then.
\<close>

datatype cell = UInt8Cell "8 word" | StringCell string

type_synonym partial_row = "(string \<times> cell) list"

definition find_column :: "schema \<Rightarrow> string \<Rightarrow> column_schema option" where
  "find_column sch nm = find (\<lambda>c. col_name c = nm) (cols sch)"

definition SetCell :: "schema \<Rightarrow> data_type \<Rightarrow> string \<Rightarrow> cell \<Rightarrow> partial_row \<Rightarrow> status \<times> partial_row" where
  "SetCell sch ty nm v row =
     (case find_column sch nm of
        None \<Rightarrow> (Error NotFound nm, row)
      | Some c \<Rightarrow>
          if col_type c \<noteq> ty then (Error InvalidArgument nm, row)
          else (OK, AList.update nm v row))"

definition SetUInt8 :: "schema \<Rightarrow> string \<Rightarrow> 8 word \<Rightarrow> partial_row \<Rightarrow> status \<times> partial_row" where
  "SetUInt8 sch nm v row = SetCell sch UINT8 nm (UInt8Cell v) row"

definition SetString :: "schema \<Rightarrow> string \<Rightarrow> string \<Rightarrow> partial_row \<Rightarrow> status \<times> partial_row" where
  "SetString sch nm v row = SetCell sch STRING nm (StringCell v) row"

text \<open>
  A run of \<^verbatim>\<open>CHECK_OK(row.Set...(...))\<close> statements: each setter in turn, and the
  process aborts (\<open>None\<close>) at the first one that does not return OK.
\<close>

fun CHECK_OK_all :: "(partial_row \<Rightarrow> status \<times> partial_row) list \<Rightarrow> partial_row \<Rightarrow> partial_row option" where
  "CHECK_OK_all [] row = Some row"
| "CHECK_OK_all (f # fs) row =
     (case f row of
        (OK, row') \<Rightarrow> CHECK_OK_all fs row'
      | (Error c m, row') \<Rightarrow> None)"

section \<open>Write requests and responses\<close>

datatype op_type = INSERT | UPDATE | DELETE

type_synonym row_operations = "(op_type \<times> partial_row) list"

text \<open>\<^verbatim>\<open>SchemaPB\<close> is a repeated column message.\<close>

type_synonym schema_pb = "column_schema list"

record write_request =
  req_tablet_id :: string
  req_schema :: schema_pb
  req_row_operations :: row_operations

record app_status_pb =
  pb_code :: nat
  pb_message :: string

record per_row_error =
  row_index :: "32 word"
  row_error :: app_status_pb

text \<open>\<open>resp_error = None\<close> is \<^verbatim>\<open>!resp->has_error()\<close>.\<close>

record write_response =
  resp_error :: "app_status_pb option"
  resp_per_row_errors :: "per_row_error list"

section \<open>The catalog's tablet peer and its collaborators\<close>

record sys_tables_entry_pb =
  tables_entry_name :: string
  tables_entry_body :: string

record sys_tablets_entry_pb =
  tablets_entry_table_id :: string
  tablets_entry_body :: string

text \<open>\<^verbatim>\<open>TableInfo\<close> and \<^verbatim>\<open>TabletInfo\<close>: the id and the dirty side of the metadata.\<close>

record table_info =
  table_id :: string
  table_dirty_pb :: sys_tables_entry_pb

record tablet_info =
  tablet_id :: string
  tablet_dirty_pb :: sys_tablets_entry_pb

datatype log_line =
    WARNING_row "32 word" status

text \<open>
  A \<^verbatim>\<open>ColumnRangePredicate\<close> as the catalog builds it: a column and two inclusive
  bounds of type \<^verbatim>\<open>uint8_t\<close>. A \<^verbatim>\<open>ScanSpec\<close> is the list of its predicates.
\<close>

record column_range_predicate =
  pred_column :: column_schema
  pred_lower :: "8 word"
  pred_upper :: "8 word"

type_synonym scan_spec = "column_range_predicate list"

text \<open>
  A stored row of the catalog tablet: \<open>(entry_type, entry_id) \<rightarrow> metadata\<close>.
\<close>

record catalog_row =
  row_entry_type :: "8 word"
  row_entry_id :: string
  row_metadata :: string

text \<open>
  What the catalog calls and the sources do not define is taken as a parameter:
  \<^item> \<open>SchemaToPB\<close> and \<open>StatusFromPB\<close> of the wire protocol;
  \<^item> \<open>SerializeTablesEntry\<close>, \<open>SerializeTabletsEntry\<close>: \<^verbatim>\<open>pb_util::SerializeToString\<close>,
    \<open>None\<close> when it returns false;
  \<^item> \<open>ParseTablesEntry\<close>, \<open>ParseTabletsEntry\<close>: \<^verbatim>\<open>pb_util::ParseFromArray\<close>;
  \<^item> \<open>SubmitWrite\<close>: the answer of the tablet peer, given the requests it was handed
    before and the new one. It yields the status \<^verbatim>\<open>SubmitWrite\<close> returns and the
    response found in \<^verbatim>\<open>resp\<close> once the latch has been released.
  \<^item> \<open>NewRowIterator\<close>, \<open>IterInit\<close>, \<open>NextBlockStatus\<close>: the status with which the
    tablet hands out a row iterator for a projection, the iterator accepts a scan
    specification, and the iterator delivers the next block when the given rows are left.
  Each of them yields its status together with what it leaves in its out-parameter.
\<close>

record env =
  SchemaToPB :: "schema \<Rightarrow> status \<times> schema_pb"
  StatusFromPB :: "app_status_pb \<Rightarrow> status"
  SerializeTablesEntry :: "sys_tables_entry_pb \<Rightarrow> string option"
  SerializeTabletsEntry :: "sys_tablets_entry_pb \<Rightarrow> string option"
  ParseTablesEntry :: "string \<Rightarrow> status \<times> sys_tables_entry_pb"
  ParseTabletsEntry :: "string \<Rightarrow> status \<times> sys_tablets_entry_pb"
  SubmitWrite :: "write_request list \<Rightarrow> write_request \<Rightarrow> status \<times> write_response"
  NewRowIterator :: "schema \<Rightarrow> status"
  IterInit :: "scan_spec \<Rightarrow> status"
  NextBlockStatus :: "catalog_row list \<Rightarrow> status"

text \<open>
  The \<^verbatim>\<open>TabletPeer\<close> the catalog owns, as far as the catalog can tell: whether
  \<^verbatim>\<open>Init\<close> and \<^verbatim>\<open>Start\<close> have succeeded on it, the requests handed to its
  \<^verbatim>\<open>SubmitWrite\<close> so far, and the rows a scan of its tablet delivers, in key order.
\<close>

record tablet_peer_state =
  initted :: bool
  started :: bool
  writes :: "write_request list"
  tablet_rows :: "catalog_row list"

text \<open>
  The state of a \<^verbatim>\<open>SysCatalogTable\<close>: the tablet peer (\<open>None\<close> while
  \<^verbatim>\<open>tablet_peer_\<close> is null), the schemas \<^verbatim>\<open>schema_\<close> and \<^verbatim>\<open>key_schema_\<close>, and the
  lines logged.
\<close>

record sys_catalog =
  tablet_peer :: "tablet_peer_state option"
  cat_schema :: schema
  key_schema :: schema
  logged :: "log_line list"

definition submitted :: "sys_catalog \<Rightarrow> write_request list" where
  "submitted s = (case tablet_peer s of None \<Rightarrow> [] | Some p \<Rightarrow> writes p)"

text \<open>
  Modelled from the spec: the rows of the catalog tablet are kept in ascending key order,
  \<open>entry_type\<close> first, then \<open>entry_id\<close> as a byte string.
\<close>

definition row_key :: "catalog_row \<Rightarrow> 8 word \<times> string" where
  "row_key row = (row_entry_type row, row_entry_id row)"

fun bytes_less :: "string \<Rightarrow> string \<Rightarrow> bool" where
  "bytes_less [] [] = False"
| "bytes_less [] (y # ys) = True"
| "bytes_less (x # xs) [] = False"
| "bytes_less (x # xs) (y # ys) = ((of_char x :: nat) < of_char y \<or> (x = y \<and> bytes_less xs ys))"

definition key_less :: "8 word \<times> string \<Rightarrow> 8 word \<times> string \<Rightarrow> bool" where
  "key_less k k' = (fst k < fst k' \<or> (fst k = fst k' \<and> bytes_less (snd k) (snd k')))"

fun insert_row :: "catalog_row \<Rightarrow> catalog_row list \<Rightarrow> catalog_row list" where
  "insert_row row [] = [row]"
| "insert_row row (x # xs) =
     (if key_less (row_key row) (row_key x) then row # x # xs
      else if row_key row = row_key x then row # xs
      else x # insert_row row xs)"

text \<open>
  Modelled from the spec: what a row operation does to the tablet once it is committed.
  The key of an operation is in its two key columns; INSERT and UPDATE carry the
  metadata as well. INSERT stores the row under its key, UPDATE replaces the row that has
  the key, DELETE removes it.
\<close>

definition key_of :: "partial_row \<Rightarrow> (8 word \<times> string) option" where
  "key_of row =
     (case (map_of row kSysCatalogTableColType, map_of row kSysCatalogTableColId) of
        (Some (UInt8Cell t), Some (StringCell i)) \<Rightarrow> Some (t, i)
      | _ \<Rightarrow> None)"

definition row_of :: "partial_row \<Rightarrow> catalog_row option" where
  "row_of row =
     (case (key_of row, map_of row kSysCatalogTableColMetadata) of
        (Some (t, i), Some (StringCell m)) \<Rightarrow>
          Some \<lparr> row_entry_type = t, row_entry_id = i, row_metadata = m \<rparr>
      | _ \<Rightarrow> None)"

fun apply_op :: "op_type \<times> partial_row \<Rightarrow> catalog_row list \<Rightarrow> catalog_row list" where
  "apply_op (INSERT, row) rows =
     (case row_of row of None \<Rightarrow> rows | Some r \<Rightarrow> insert_row r rows)"
| "apply_op (UPDATE, row) rows =
     (case row_of row of
        None \<Rightarrow> rows
      | Some r \<Rightarrow> map (\<lambda>x. if row_key x = row_key r then r else x) rows)"
| "apply_op (DELETE, row) rows =
     (case key_of row of None \<Rightarrow> rows | Some k \<Rightarrow> filter (\<lambda>x. row_key x \<noteq> k) rows)"

definition apply_ops :: "row_operations \<Rightarrow> catalog_row list \<Rightarrow> catalog_row list" where
  "apply_ops ops rows = foldl (\<lambda>rs op. apply_op op rs) rows ops"

text \<open>
  Modelled from the spec: \<^verbatim>\<open>TabletPeer::SubmitWrite\<close> and the completion of the
  transaction it starts are not among the sources. The peer is handed the request and
  answers with a status and, through the completion callback, a response. A write is
  atomic: when the peer accepts it and the response carries neither a tablet-level error
  nor a per-row error, all its row operations are committed, in order; otherwise none is.
\<close>

definition write_commits :: "status \<times> write_response \<Rightarrow> bool" where
  "write_commits answer =
     (fst answer = OK \<and> resp_error (snd answer) = None \<and> resp_per_row_errors (snd answer) = [])"

definition TabletPeer_SubmitWrite ::
  "env \<Rightarrow> write_request \<Rightarrow> tablet_peer_state \<Rightarrow> (status \<times> write_response) \<times> tablet_peer_state" where
  "TabletPeer_SubmitWrite e req p =
     (let answer = SubmitWrite e (writes p) req;
          p1 = p\<lparr>writes := writes p @ [req]\<rparr>
      in (answer,
          if write_commits answer
          then p1\<lparr>tablet_rows := apply_ops (req_row_operations req) (tablet_rows p1)\<rparr>
          else p1))"

text \<open>
  The part of \<^verbatim>\<open>SyncWrite\<close> after \<^verbatim>\<open>latch.Wait()\<close>: the status for a response, and the
  warnings logged on the way.
\<close>

definition response_status :: "env \<Rightarrow> write_response \<Rightarrow> status \<times> log_line list" where
  "response_status e resp =
     (case resp_error resp of
        Some err \<Rightarrow> (StatusFromPB e err, [])
      | None \<Rightarrow>
          if length (resp_per_row_errors resp) > 0
          then (Error Corruption ''One or more rows failed to write'',
                map (\<lambda>er. WARNING_row (row_index er) (StatusFromPB e (row_error er)))
                    (resp_per_row_errors resp))
          else (OK, []))"

definition SyncWrite :: "env \<Rightarrow> write_request \<Rightarrow> sys_catalog \<Rightarrow> outcome \<times> sys_catalog" where
  "SyncWrite e req s =
     (case tablet_peer s of
        None \<Rightarrow> (Aborts, s)
      | Some p \<Rightarrow>
          (case TabletPeer_SubmitWrite e req p of
             ((Error c m, resp), p') \<Rightarrow> (Returns (Error c m), s\<lparr>tablet_peer := Some p'\<rparr>)
           | ((OK, resp), p') \<Rightarrow>
               let s1 = s\<lparr>tablet_peer := Some p'\<rparr>;
                   (st, lines) = response_status e resp
               in (Returns st, s1\<lparr>logged := logged s1 @ lines\<rparr>)))"

section \<open>Table mutations\<close>

definition empty_request :: write_request where
  "empty_request = \<lparr> req_tablet_id = [], req_schema = [], req_row_operations = [] \<rparr>"

definition AddTable :: "env \<Rightarrow> table_info \<Rightarrow> sys_catalog \<Rightarrow> outcome \<times> sys_catalog" where
  "AddTable e table s =
     (case SerializeTablesEntry e (table_dirty_pb table) of
        None \<Rightarrow>
          (Returns (Status2 Corruption ''Unable to serialize SysCatalogTablesEntryPB for tablet''
                      (tables_entry_name (table_dirty_pb table))), s)
      | Some metadata_buf \<Rightarrow>
          let req = empty_request\<lparr>req_tablet_id := kSysCatalogTabletId\<rparr> in
          (case SchemaToPB e (cat_schema s) of
             (Error c m, spb) \<Rightarrow> (Returns (Error c m), s)
           | (OK, spb) \<Rightarrow>
               let req = req\<lparr>req_schema := spb\<rparr> in
               (case CHECK_OK_all
                       [SetUInt8 (cat_schema s) kSysCatalogTableColType TABLES_ENTRY,
                        SetString (cat_schema s) kSysCatalogTableColId (table_id table),
                        SetString (cat_schema s) kSysCatalogTableColMetadata metadata_buf] [] of
                  None \<Rightarrow> (Aborts, s)
                | Some row \<Rightarrow>
                    SyncWrite e (req\<lparr>req_row_operations := req_row_operations req @ [(INSERT, row)]\<rparr>) s)))"

definition UpdateTable :: "env \<Rightarrow> table_info \<Rightarrow> sys_catalog \<Rightarrow> outcome \<times> sys_catalog" where
  "UpdateTable e table s =
     (case SerializeTablesEntry e (table_dirty_pb table) of
        None \<Rightarrow>
          (Returns (Status2 Corruption ''Unable to serialize SysCatalogTablesEntryPB for tablet''
                      (table_id table)), s)
      | Some metadata_buf \<Rightarrow>
          let req = empty_request\<lparr>req_tablet_id := kSysCatalogTabletId\<rparr> in
          (case SchemaToPB e (cat_schema s) of
             (Error c m, spb) \<Rightarrow> (Returns (Error c m), s)
           | (OK, spb) \<Rightarrow>
               let req = req\<lparr>req_schema := spb\<rparr> in
               (case CHECK_OK_all
                       [SetUInt8 (cat_schema s) kSysCatalogTableColType TABLES_ENTRY,
                        SetString (cat_schema s) kSysCatalogTableColId (table_id table),
                        SetString (cat_schema s) kSysCatalogTableColMetadata metadata_buf] [] of
                  None \<Rightarrow> (Aborts, s)
                | Some row \<Rightarrow>
                    SyncWrite e (req\<lparr>req_row_operations := req_row_operations req @ [(UPDATE, row)]\<rparr>) s)))"

definition DeleteTable :: "env \<Rightarrow> table_info \<Rightarrow> sys_catalog \<Rightarrow> outcome \<times> sys_catalog" where
  "DeleteTable e table s =
     (let req = empty_request\<lparr>req_tablet_id := kSysCatalogTableColMetadata\<rparr> in
      (case SchemaToPB e (cat_schema s) of
         (Error c m, spb) \<Rightarrow> (Returns (Error c m), s)
       | (OK, spb) \<Rightarrow>
           let req = req\<lparr>req_schema := spb\<rparr> in
           (case CHECK_OK_all
                   [SetUInt8 (cat_schema s) kSysCatalogTableColType TABLES_ENTRY,
                    SetString (cat_schema s) kSysCatalogTableColId (table_id table)] [] of
              None \<Rightarrow> (Aborts, s)
            | Some row \<Rightarrow>
                SyncWrite e (req\<lparr>req_row_operations := req_row_operations req @ [(DELETE, row)]\<rparr>) s)))"

section \<open>Tablet mutations\<close>

text \<open>
  \<^verbatim>\<open>AddTabletsToPB\<close>: one row object, reused for every tablet of the list, and one
  operation appended per tablet. The loop stops at the first tablet that does not
  serialize; the operations appended so far stay in the request.
\<close>

fun AddTabletsToPB_loop ::
  "env \<Rightarrow> schema \<Rightarrow> op_type \<Rightarrow> tablet_info list \<Rightarrow> partial_row \<Rightarrow> row_operations \<Rightarrow> outcome \<times> row_operations" where
  "AddTabletsToPB_loop e sch ty [] row ops = (Returns OK, ops)"
| "AddTabletsToPB_loop e sch ty (tablet # rest) row ops =
     (case SerializeTabletsEntry e (tablet_dirty_pb tablet) of
        None \<Rightarrow>
          (Returns (Status2 Corruption ''Unable to serialize SysCatalogTabletsEntryPB for tablet''
                      (tablet_id tablet)), ops)
      | Some metadata_buf \<Rightarrow>
          (case CHECK_OK_all
                  [SetUInt8 sch kSysCatalogTableColType TABLETS_ENTRY,
                   SetString sch kSysCatalogTableColId (tablet_id tablet),
                   SetString sch kSysCatalogTableColMetadata metadata_buf] row of
             None \<Rightarrow> (Aborts, ops)
           | Some row' \<Rightarrow> AddTabletsToPB_loop e sch ty rest row' (ops @ [(ty, row')])))"

definition AddTabletsToPB ::
  "env \<Rightarrow> schema \<Rightarrow> tablet_info list \<Rightarrow> op_type \<Rightarrow> row_operations \<Rightarrow> outcome \<times> row_operations" where
  "AddTabletsToPB e sch tablets ty ops = AddTabletsToPB_loop e sch ty tablets [] ops"

definition AddAndUpdateTablets ::
  "env \<Rightarrow> tablet_info list \<Rightarrow> tablet_info list \<Rightarrow> sys_catalog \<Rightarrow> outcome \<times> sys_catalog" where
  "AddAndUpdateTablets e tablets_to_add tablets_to_update s =
     (let req = empty_request\<lparr>req_tablet_id := kSysCatalogTabletId\<rparr> in
      (case SchemaToPB e (cat_schema s) of
         (Error c m, spb) \<Rightarrow> (Returns (Error c m), s)
       | (OK, spb) \<Rightarrow>
           let req = req\<lparr>req_schema := spb\<rparr>;
               (r1, ops1) =
                 (if tablets_to_add \<noteq> []
                  then AddTabletsToPB e (cat_schema s) tablets_to_add INSERT (req_row_operations req)
                  else (Returns OK, req_row_operations req))
           in if r1 \<noteq> Returns OK then (r1, s)
              else
                let (r2, ops2) =
                      (if tablets_to_update \<noteq> []
                       then AddTabletsToPB e (cat_schema s) tablets_to_update UPDATE ops1
                       else (Returns OK, ops1))
                in if r2 \<noteq> Returns OK then (r2, s)
                   else SyncWrite e (req\<lparr>req_row_operations := ops2\<rparr>) s))"

definition AddTablets :: "env \<Rightarrow> tablet_info list \<Rightarrow> sys_catalog \<Rightarrow> outcome \<times> sys_catalog" where
  "AddTablets e tablets s = (let empty_tablets = [] in AddAndUpdateTablets e tablets empty_tablets s)"

definition UpdateTablets :: "env \<Rightarrow> tablet_info list \<Rightarrow> sys_catalog \<Rightarrow> outcome \<times> sys_catalog" where
  "UpdateTablets e tablets s = (let empty_tablets = [] in AddAndUpdateTablets e empty_tablets tablets s)"

fun DeleteTablets_loop ::
  "schema \<Rightarrow> tablet_info list \<Rightarrow> partial_row \<Rightarrow> row_operations \<Rightarrow> row_operations option" where
  "DeleteTablets_loop sch [] row ops = Some ops"
| "DeleteTablets_loop sch (tablet # rest) row ops =
     (case CHECK_OK_all
             [SetUInt8 sch kSysCatalogTableColType TABLETS_ENTRY,
              SetString sch kSysCatalogTableColId (tablet_id tablet)] row of
        None \<Rightarrow> None
      | Some row' \<Rightarrow> DeleteTablets_loop sch rest row' (ops @ [(DELETE, row')]))"

definition DeleteTablets :: "env \<Rightarrow> tablet_info list \<Rightarrow> sys_catalog \<Rightarrow> outcome \<times> sys_catalog" where
  "DeleteTablets e tablets s =
     (let req = empty_request\<lparr>req_tablet_id := kSysCatalogTabletId\<rparr> in
      (case SchemaToPB e (cat_schema s) of
         (Error c m, spb) \<Rightarrow> (Returns (Error c m), s)
       | (OK, spb) \<Rightarrow>
           let req = req\<lparr>req_schema := spb\<rparr> in
           (case DeleteTablets_loop (cat_schema s) tablets [] (req_row_operations req) of
              None \<Rightarrow> (Aborts, s)
            | Some ops \<Rightarrow> SyncWrite e (req\<lparr>req_row_operations := ops\<rparr>) s)))"

section \<open>Quorums\<close>

datatype role = LEADER | FOLLOWER | CANDIDATE

record host_port =
  hp_host :: string
  hp_port :: "16 word"

record host_port_pb =
  pb_host :: string
  pb_port :: "32 word"

text \<open>
  \<^verbatim>\<open>QuorumPeerPB\<close> and \<^verbatim>\<open>QuorumPB\<close>. The three fields of a peer are optional in the
  message; \<open>None\<close> is a field that has not been set. \<^verbatim>\<open>seqno\<close> is an \<^verbatim>\<open>int64\<close>.
\<close>

record quorum_peer_pb =
  permanent_uuid :: "string option"
  last_known_addr :: "host_port_pb option"
  peer_role :: "role option"

record quorum_pb =
  seqno :: "64 word"
  is_local :: bool
  peers :: "quorum_peer_pb list"

definition empty_peer :: quorum_peer_pb where
  "empty_peer = \<lparr> permanent_uuid = None, last_known_addr = None, peer_role = None \<rparr>"

definition empty_quorum :: quorum_pb where
  "empty_quorum = \<lparr> seqno = 0, is_local = False, peers = [] \<rparr>"

record master_options =
  leader :: bool
  follower_addresses :: "host_port list"
  leader_address :: host_port

text \<open>
  The \<^verbatim>\<open>Master\<close> the catalog belongs to: its options, its first RPC address, and whether
  it has a messenger.
\<close>

record master =
  opts :: master_options
  first_rpc_address :: host_port
  has_messenger :: bool

text \<open>
  What the startup path calls and the sources do not define, taken as a parameter:
  \<^item> \<open>IsDistributed\<close> of the master options;
  \<^item> \<open>HostPortToPB\<close> of the wire protocol;
  \<^item> \<open>LookupUuid\<close>: the remote call that asks the server at an address for its
    permanent uuid;
  \<^item> \<open>VerifyQuorum\<close> of the consensus module;
  \<^item> \<open>ShortDebugString\<close> of a peer and \<open>SchemaToString\<close>, used in messages only;
  \<^item> \<open>table_name\<close> and \<open>kMinimumTerm\<close>, two constants;
  \<^item> \<open>BootstrapTablet\<close>, \<open>PeerInit\<close>, \<open>PeerStart\<close>: bringing the tablet up. A
    bootstrap yields the rows of the recovered tablet.
\<close>

record boot_env =
  IsDistributed :: "master_options \<Rightarrow> bool"
  HostPortToPB :: "host_port \<Rightarrow> status \<times> host_port_pb"
  LookupUuid :: "host_port_pb option \<Rightarrow> status \<times> string"
  VerifyQuorum :: "quorum_pb \<Rightarrow> status"
  ShortDebugString :: "quorum_peer_pb \<Rightarrow> string"
  SchemaToString :: "schema \<Rightarrow> string"
  table_name :: string
  kMinimumTerm :: "64 word"
  BootstrapTablet :: "string \<Rightarrow> status \<times> catalog_row list"
  PeerInit :: "string \<Rightarrow> status"
  PeerStart :: "string \<Rightarrow> status"

text \<open>
  Modelled from the spec: \<^verbatim>\<open>consensus::SetPermanentUuidForRemotePeer\<close> is not among the
  sources. It issues the remote lookup for the peer and, when that succeeds, stores the
  identifier obtained in the peer's \<^verbatim>\<open>permanent_uuid\<close>; nothing else of the peer changes.
\<close>

definition SetPermanentUuidForRemotePeer :: "boot_env \<Rightarrow> quorum_peer_pb \<Rightarrow> status \<times> quorum_peer_pb" where
  "SetPermanentUuidForRemotePeer b peer =
     (case LookupUuid b (last_known_addr peer) of
        (OK, u) \<Rightarrow> (OK, peer\<lparr>permanent_uuid := Some u\<rparr>)
      | (Error c m, u) \<Rightarrow> (Error c m, peer))"

text \<open>The first loop of \<^verbatim>\<open>SetupDistributedQuorum\<close>: one FOLLOWER peer per follower address.\<close>

fun add_followers :: "boot_env \<Rightarrow> host_port list \<Rightarrow> quorum_pb \<Rightarrow> status \<times> quorum_pb" where
  "add_followers b [] q = (OK, q)"
| "add_followers b (host_port # rest) q =
     (case HostPortToPB b host_port of
        (Error c m, peer_host_port_pb) \<Rightarrow> (Error c m, q)
      | (OK, peer_host_port_pb) \<Rightarrow>
          let peer = empty_peer\<lparr>last_known_addr := Some peer_host_port_pb\<rparr>;
              peer = peer\<lparr>peer_role := Some FOLLOWER\<rparr>
          in add_followers b rest (q\<lparr>peers := peers q @ [peer]\<rparr>))"

text \<open>The second loop: every peer without a \<^verbatim>\<open>permanent_uuid\<close> is looked up.\<close>

fun resolve_peers :: "boot_env \<Rightarrow> quorum_peer_pb list \<Rightarrow> quorum_pb \<Rightarrow> status \<times> quorum_pb" where
  "resolve_peers b [] resolved_quorum = (OK, resolved_quorum)"
| "resolve_peers b (peer # rest) resolved_quorum =
     (if permanent_uuid peer \<noteq> None
      then resolve_peers b rest (resolved_quorum\<lparr>peers := peers resolved_quorum @ [peer]\<rparr>)
      else
        (case SetPermanentUuidForRemotePeer b peer of
           (Error c m, new_peer) \<Rightarrow>
             (CloneAndPrepend (''Unable to resolve UUID for peer '' @ ShortDebugString b peer) (Error c m),
              resolved_quorum)
         | (OK, new_peer) \<Rightarrow>
             resolve_peers b rest (resolved_quorum\<lparr>peers := peers resolved_quorum @ [new_peer]\<rparr>)))"

text \<open>
  \<^verbatim>\<open>SetupDistributedQuorum(options, seqno, quorum)\<close>. The result is the outcome and the
  contents of \<^verbatim>\<open>*quorum\<close>, which is assigned on success only. The two \<^verbatim>\<open>DCHECK\<close>s abort.
\<close>

definition SetupDistributedQuorum ::
  "boot_env \<Rightarrow> master \<Rightarrow> master_options \<Rightarrow> 64 word \<Rightarrow> quorum_pb \<Rightarrow> outcome \<times> quorum_pb" where
  "SetupDistributedQuorum b m options sq quorum =
     (if \<not> IsDistributed b options then (Aborts, quorum)
      else
        let new_quorum = empty_quorum\<lparr>seqno := sq\<rparr>;
            new_quorum = new_quorum\<lparr>is_local := False\<rparr>
        in
        (case add_followers b (follower_addresses options) new_quorum of
           (Error c msg, new_quorum) \<Rightarrow> (Returns (Error c msg), quorum)
         | (OK, new_quorum) \<Rightarrow>
             let self_host_port =
                   \<lparr> pb_host = hp_host (first_rpc_address m),
                     pb_port = ucast (hp_port (first_rpc_address m)) \<rparr>;
                 local_peer = empty_peer\<lparr>last_known_addr := Some self_host_port\<rparr>;
                 local_peer = local_peer\<lparr>peer_role := Some (if leader options then LEADER else FOLLOWER)\<rparr>;
                 new_quorum = new_quorum\<lparr>peers := peers new_quorum @ [local_peer]\<rparr>;
                 (st, new_quorum) =
                   (if \<not> leader options
                    then
                      (case HostPortToPB b (leader_address (opts m)) of
                         (Error c msg, leader_host_port_pb) \<Rightarrow>
                           (Error c msg,
                            new_quorum\<lparr>peers := peers new_quorum @ [empty_peer\<lparr>peer_role := Some CANDIDATE\<rparr>]\<rparr>)
                       | (OK, leader_host_port_pb) \<Rightarrow>
                           (OK,
                            new_quorum\<lparr>peers := peers new_quorum @
                              [empty_peer\<lparr>peer_role := Some CANDIDATE,
                                        last_known_addr := Some leader_host_port_pb\<rparr>]\<rparr>))
                    else (OK, new_quorum))
             in
             if st \<noteq> OK then (Returns st, quorum)
             else if \<not> has_messenger m then (Aborts, quorum)
             else
               (case resolve_peers b (peers new_quorum) (new_quorum\<lparr>peers := []\<rparr>) of
                  (Error c msg, resolved_quorum) \<Rightarrow> (Returns (Error c msg), quorum)
                | (OK, resolved_quorum) \<Rightarrow>
                    (case VerifyQuorum b resolved_quorum of
                       Error c msg \<Rightarrow> (Returns (Error c msg), quorum)
                     | OK \<Rightarrow> (Returns OK, resolved_quorum)))))"

section \<open>Persistent metadata\<close>

datatype bootstrap_state = REMOTE_BOOTSTRAP_COPYING | REMOTE_BOOTSTRAP_DONE

record master_block =
  block_tablet_id :: string
  block_a :: string
  block_b :: string

definition SetupTabletMasterBlock :: master_block where
  "SetupTabletMasterBlock =
     \<lparr> block_tablet_id = kSysCatalogTabletId,
       block_a = ''00000000000000000000000000000000'',
       block_b = ''11111111111111111111111111111111'' \<rparr>"

record tablet_metadata =
  oid :: string
  meta_table_name :: string
  meta_schema :: schema
  start_key :: string
  end_key :: string
  remote_bootstrap_state :: bootstrap_state

record consensus_metadata_pb =
  committed_quorum :: quorum_pb
  current_term :: "64 word"

text \<open>A \<^verbatim>\<open>ConsensusMetadata\<close> object: the tablet it belongs to and its in-memory message.\<close>

record consensus_metadata =
  cmeta_tablet_id :: string
  cmeta_pb :: consensus_metadata_pb

text \<open>
  Modelled from the spec: \<^verbatim>\<open>FsManager\<close>, \<^verbatim>\<open>TabletMetadata\<close> and \<^verbatim>\<open>ConsensusMetadata\<close>
  are not among the sources. The file system keeps, per tablet id, one tablet-metadata
  record and one consensus-metadata record; a record on disk may be unreadable. \<open>load\<close>
  fails with NotFound or Corruption; \<open>create\<close> initializes and flushes; \<open>flush\<close> replaces
  the record atomically or fails with IOError, and then leaves the old record in place.
  \<open>write_error\<close> is the fault that makes every flush fail.
\<close>

datatype 'a stored = Unreadable | Good 'a

record fs_manager =
  uuid :: string
  tmeta_files :: "string \<rightharpoonup> tablet_metadata stored"
  cmeta_files :: "string \<rightharpoonup> consensus_metadata_pb stored"
  write_error :: "string option"

text \<open>Modelled from the spec: \<^verbatim>\<open>TabletMetadata::Load\<close> and \<^verbatim>\<open>TabletMetadata::CreateNew\<close>.\<close>

definition TabletMetadata_Load :: "fs_manager \<Rightarrow> master_block \<Rightarrow> status + tablet_metadata" where
  "TabletMetadata_Load fs mb =
     (case tmeta_files fs (block_tablet_id mb) of
        None \<Rightarrow> Inl (Error NotFound (block_tablet_id mb))
      | Some Unreadable \<Rightarrow> Inl (Error Corruption (block_tablet_id mb))
      | Some (Good md) \<Rightarrow> Inr md)"

definition TabletMetadata_CreateNew ::
  "fs_manager \<Rightarrow> master_block \<Rightarrow> string \<Rightarrow> schema \<Rightarrow> string \<Rightarrow> string \<Rightarrow> bootstrap_state
     \<Rightarrow> status + tablet_metadata \<times> fs_manager" where
  "TabletMetadata_CreateNew fs mb nm sch sk ek st =
     (let md = \<lparr> oid = block_tablet_id mb, meta_table_name = nm, meta_schema = sch,
                  start_key = sk, end_key = ek, remote_bootstrap_state = st \<rparr>
      in case write_error fs of
           Some msg \<Rightarrow> Inl (Error IOError msg)
         | None \<Rightarrow> Inr (md, fs\<lparr>tmeta_files := (tmeta_files fs)(block_tablet_id mb \<mapsto> Good md)\<rparr>))"

text \<open>
  Modelled from the spec: \<^verbatim>\<open>ConsensusMetadata::Load\<close>, \<^verbatim>\<open>Flush\<close> and
  \<^verbatim>\<open>ConsensusMetadata::Create\<close>.
\<close>

definition ConsensusMetadata_Load :: "fs_manager \<Rightarrow> string \<Rightarrow> status + consensus_metadata" where
  "ConsensusMetadata_Load fs tid =
     (case cmeta_files fs tid of
        None \<Rightarrow> Inl (Error NotFound tid)
      | Some Unreadable \<Rightarrow> Inl (Error Corruption tid)
      | Some (Good p) \<Rightarrow> Inr \<lparr> cmeta_tablet_id = tid, cmeta_pb = p \<rparr>)"

definition Flush :: "consensus_metadata \<Rightarrow> fs_manager \<Rightarrow> status \<times> fs_manager" where
  "Flush cmeta fs =
     (case write_error fs of
        Some msg \<Rightarrow> (Error IOError msg, fs)
      | None \<Rightarrow> (OK, fs\<lparr>cmeta_files := (cmeta_files fs)(cmeta_tablet_id cmeta \<mapsto> Good (cmeta_pb cmeta))\<rparr>))"

definition ConsensusMetadata_Create ::
  "fs_manager \<Rightarrow> string \<Rightarrow> quorum_pb \<Rightarrow> 64 word \<Rightarrow> status + consensus_metadata \<times> fs_manager" where
  "ConsensusMetadata_Create fs tid quorum term =
     (let cmeta = \<lparr> cmeta_tablet_id = tid,
                     cmeta_pb = \<lparr> committed_quorum = quorum, current_term = term \<rparr> \<rparr>
      in case Flush cmeta fs of
           (Error c m, fs') \<Rightarrow> Inl (Error c m)
         | (OK, fs') \<Rightarrow> Inr (cmeta, fs'))"

section \<open>Starting the catalog tablet\<close>

definition CreateKeyProjection :: "schema \<Rightarrow> schema" where
  "CreateKeyProjection sch =
     \<lparr> cols = take (num_key_columns sch) (cols sch), num_key_columns = num_key_columns sch \<rparr>"

text \<open>
  \<^verbatim>\<open>SetupTablet\<close>: a fresh tablet peer replaces \<^verbatim>\<open>tablet_peer_\<close>, the tablet is
  bootstrapped, the peer is initialized and started, and the schemas are taken from the
  tablet, whose schema is the one of its metadata. The model's schemas carry no column
  ids, so \<^verbatim>\<open>BuildWithoutIds\<close> changes nothing.
\<close>

definition fresh_peer :: tablet_peer_state where
  "fresh_peer = \<lparr> initted = False, started = False, writes = [], tablet_rows = [] \<rparr>"

definition SetupTablet :: "boot_env \<Rightarrow> tablet_metadata \<Rightarrow> sys_catalog \<Rightarrow> outcome \<times> sys_catalog" where
  "SetupTablet b metadata s =
     (let s1 = s\<lparr>tablet_peer := Some fresh_peer\<rparr> in
      (case BootstrapTablet b (oid metadata) of
         (Error c m, rows) \<Rightarrow> (Returns (Error c m), s1)
       | (OK, rows) \<Rightarrow>
           (case PeerInit b (oid metadata) of
              Error c m \<Rightarrow> (Returns (CloneAndPrepend ''Failed to Init() TabletPeer'' (Error c m)), s1)
            | OK \<Rightarrow>
                let s2 = s1\<lparr>tablet_peer := Some (fresh_peer\<lparr>initted := True, tablet_rows := rows\<rparr>)\<rparr> in
                (case PeerStart b (oid metadata) of
                   Error c m \<Rightarrow> (Returns (CloneAndPrepend ''Failed to Start() TabletPeer'' (Error c m)), s2)
                 | OK \<Rightarrow>
                     (Returns OK,
                      s2\<lparr>tablet_peer := Some (fresh_peer\<lparr>initted := True, tablet_rows := rows, started := True\<rparr>),
                         cat_schema := meta_schema metadata,
                         key_schema := CreateKeyProjection (meta_schema metadata)\<rparr>)))))"

text \<open>
  \<^verbatim>\<open>Load\<close>. \<^verbatim>\<open>old_seqno + 1\<close> is an addition of \<^verbatim>\<open>int64_t\<close>; it is taken to wrap
  around in two's complement.
\<close>

definition Load :: "boot_env \<Rightarrow> master \<Rightarrow> fs_manager \<Rightarrow> sys_catalog \<Rightarrow> outcome \<times> fs_manager \<times> sys_catalog" where
  "Load b m fs s =
     (let master_block = SetupTabletMasterBlock in
      (case TabletMetadata_Load fs master_block of
         Inl st \<Rightarrow> (Returns st, fs, s)
       | Inr metadata \<Rightarrow>
           if meta_schema metadata \<noteq> BuildTableSchema
           then (Returns (Status2 Corruption ''Unexpected schema'' (SchemaToString b (meta_schema metadata))),
                 fs, s)
           else
             let (r, fs1) =
                   (if IsDistributed b (opts m)
                    then
                      let tid = oid metadata in
                      (case ConsensusMetadata_Load fs tid of
                         Inl st \<Rightarrow>
                           (Returns (CloneAndPrepend (''Unable to load consensus metadata for tablet '' @ tid) st), fs)
                       | Inr cmeta \<Rightarrow>
                           let old_seqno = seqno (committed_quorum (cmeta_pb cmeta)) in
                           (case SetupDistributedQuorum b m (opts m) (old_seqno + 1)
                                   (committed_quorum (cmeta_pb cmeta)) of
                              (Aborts, q) \<Rightarrow> (Aborts, fs)
                            | (Returns (Error c msg), q) \<Rightarrow> (Returns (Error c msg), fs)
                            | (Returns OK, q) \<Rightarrow>
                                (case Flush (cmeta\<lparr>cmeta_pb := (cmeta_pb cmeta)\<lparr>committed_quorum := q\<rparr>\<rparr>) fs of
                                   (Error c msg, fs') \<Rightarrow>
                                     (Returns (CloneAndPrepend
                                        (''Unable to persist consensus metadata for tablet '' @ tid)
                                        (Error c msg)), fs')
                                 | (OK, fs') \<Rightarrow> (Returns OK, fs'))))
                    else (Returns OK, fs))
             in if r \<noteq> Returns OK then (r, fs1, s)
                else let (r', s') = SetupTablet b metadata s in (r', fs1, s')))"

definition kInitialSeqno :: "64 word" where
  "kInitialSeqno = 0"

definition CreateNew :: "boot_env \<Rightarrow> master \<Rightarrow> fs_manager \<Rightarrow> sys_catalog \<Rightarrow> outcome \<times> fs_manager \<times> sys_catalog" where
  "CreateNew b m fs s =
     (let master_block = SetupTabletMasterBlock in
      (case TabletMetadata_CreateNew fs master_block (table_name b) BuildTableSchema [] []
              REMOTE_BOOTSTRAP_DONE of
         Inl st \<Rightarrow> (Returns st, fs, s)
       | Inr (metadata, fs1) \<Rightarrow>
           let (r, quorum) =
                 (if IsDistributed b (opts m)
                  then
                    (case SetupDistributedQuorum b m (opts m) kInitialSeqno empty_quorum of
                       (Aborts, q) \<Rightarrow> (Aborts, q)
                     | (Returns st, q) \<Rightarrow>
                         (Returns (CloneAndPrepend ''Failed to initialize distributed quorum'' st), q))
                  else
                    let quorum = empty_quorum\<lparr>seqno := kInitialSeqno\<rparr>;
                        quorum = quorum\<lparr>is_local := True\<rparr>;
                        peer = empty_peer\<lparr>permanent_uuid := Some (uuid fs1)\<rparr>;
                        peer = peer\<lparr>peer_role := Some LEADER\<rparr>
                    in (Returns OK, quorum\<lparr>peers := peers quorum @ [peer]\<rparr>))
           in if r \<noteq> Returns OK then (r, fs1, s)
              else
                let tid = oid metadata in
                (case ConsensusMetadata_Create fs1 tid quorum (kMinimumTerm b) of
                   Inl st \<Rightarrow>
                     (Returns (CloneAndPrepend (''Unable to persist consensus metadata for tablet '' @ tid) st),
                      fs1, s)
                 | Inr (cmeta, fs2) \<Rightarrow>
                     let (r', s') = SetupTablet b metadata s in (r', fs2, s'))))"

section \<open>Visiting the catalog\<close>

text \<open>
  \<^verbatim>\<open>Arena\<close> and \<^verbatim>\<open>RowBlock\<close>, as far as the visit functions construct them: an arena
  has an initial and a maximum buffer size, a row block a schema, a number of rows it has
  room for, and the arena it allocates from.
\<close>

record arena =
  initial_buffer_size :: nat
  max_buffer_size :: nat

record row_block =
  block_schema :: schema
  block_capacity :: nat
  block_arena :: arena

text \<open>
  A call of \<^verbatim>\<open>iter->NextBlock(&block)\<close>, as the iterator sees it: the block it was handed
  and the number of rows it put there.
\<close>

record fetch =
  fetch_block :: row_block
  fetch_rows :: nat

text \<open>The cell of a stored row in the column of a given name.\<close>

definition row_cell :: "catalog_row \<Rightarrow> string \<Rightarrow> cell option" where
  "row_cell row nm =
     (if nm = kSysCatalogTableColType then Some (UInt8Cell (row_entry_type row))
      else if nm = kSysCatalogTableColId then Some (StringCell (row_entry_id row))
      else if nm = kSysCatalogTableColMetadata then Some (StringCell (row_metadata row))
      else None)"

text \<open>
  Modelled from the spec: the tablet's \<^verbatim>\<open>RowwiseIterator\<close> is not among the sources.
  It walks the rows of the tablet in key order. \<^verbatim>\<open>HasNext\<close> holds while rows are left;
  \<^verbatim>\<open>NextBlock\<close> moves the next rows into the block, as many as are left and the block
  has room for, and marks as selected those that satisfy every predicate of the scan
  specification (the value in the predicate's column lies within its bounds).
\<close>

definition satisfies :: "column_range_predicate \<Rightarrow> catalog_row \<Rightarrow> bool" where
  "satisfies p row =
     (case row_cell row (col_name (pred_column p)) of
        Some (UInt8Cell v) \<Rightarrow> pred_lower p \<le> v \<and> v \<le> pred_upper p
      | _ \<Rightarrow> False)"

definition row_selected :: "scan_spec \<Rightarrow> catalog_row \<Rightarrow> bool" where
  "row_selected spec row = list_all (\<lambda>p. satisfies p row) spec"

definition HasNext :: "catalog_row list \<Rightarrow> bool" where
  "HasNext rest = (rest \<noteq> [])"

definition NextBlock ::
  "env \<Rightarrow> scan_spec \<Rightarrow> row_block \<Rightarrow> catalog_row list
     \<Rightarrow> status \<times> (catalog_row \<times> bool) list \<times> catalog_row list" where
  "NextBlock e spec block rest =
     (case NextBlockStatus e rest of
        Error c m \<Rightarrow> (Error c m, [], rest)
      | OK \<Rightarrow>
          (OK,
           map (\<lambda>row. (row, row_selected spec row)) (take (block_capacity block) rest),
           drop (block_capacity block) rest))"

text \<open>
  \<^verbatim>\<open>ExtractColumnFromRow<STRING>(row, schema_.find_column(name))\<close>. Nothing in the source
  guards against a schema without the column, or against a column that is not a string;
  the model aborts there.
\<close>

definition ExtractString :: "schema \<Rightarrow> catalog_row \<Rightarrow> string \<Rightarrow> string option" where
  "ExtractString sch row nm =
     (case find_column sch nm of
        None \<Rightarrow> None
      | Some c \<Rightarrow>
          (case row_cell row nm of
             Some (StringCell v) \<Rightarrow> if col_type c = STRING then Some v else None
           | _ \<Rightarrow> None))"

type_synonym 'v table_visitor = "string \<Rightarrow> sys_tables_entry_pb \<Rightarrow> 'v \<Rightarrow> status \<times> 'v"

type_synonym 'v tablet_visitor = "string \<Rightarrow> string \<Rightarrow> sys_tablets_entry_pb \<Rightarrow> 'v \<Rightarrow> status \<times> 'v"

text \<open>
  A visitor is an object with state \<open>'v\<close>; a visit yields a status and the visitor's new
  state.
\<close>

definition VisitTableFromRow ::
  "env \<Rightarrow> schema \<Rightarrow> 'v table_visitor \<Rightarrow> catalog_row \<Rightarrow> 'v \<Rightarrow> outcome \<times> 'v" where
  "VisitTableFromRow e sch visitor row v =
     (case ExtractString sch row kSysCatalogTableColId of
        None \<Rightarrow> (Aborts, v)
      | Some tid \<Rightarrow>
          (case ExtractString sch row kSysCatalogTableColMetadata of
             None \<Rightarrow> (Aborts, v)
           | Some data \<Rightarrow>
               (case ParseTablesEntry e data of
                  (Error c m, md) \<Rightarrow>
                    (Returns (CloneAndPrepend (''Unable to parse metadata field for table '' @ tid)
                                (Error c m)), v)
                | (OK, md) \<Rightarrow>
                    (case visitor tid md v of (st, v') \<Rightarrow> (Returns st, v')))))"

definition VisitTabletFromRow ::
  "env \<Rightarrow> schema \<Rightarrow> 'v tablet_visitor \<Rightarrow> catalog_row \<Rightarrow> 'v \<Rightarrow> outcome \<times> 'v" where
  "VisitTabletFromRow e sch visitor row v =
     (case ExtractString sch row kSysCatalogTableColId of
        None \<Rightarrow> (Aborts, v)
      | Some tid \<Rightarrow>
          (case ExtractString sch row kSysCatalogTableColMetadata of
             None \<Rightarrow> (Aborts, v)
           | Some data \<Rightarrow>
               (case ParseTabletsEntry e data of
                  (Error c m, md) \<Rightarrow>
                    (Returns (CloneAndPrepend (''Unable to parse metadata field for tablet '' @ tid)
                                (Error c m)), v)
                | (OK, md) \<Rightarrow>
                    (case visitor (tablets_entry_table_id md) tid md v of (st, v') \<Rightarrow> (Returns st, v')))))"

text \<open>
  The inner loop over the rows of one block: rows that are not selected are skipped, and
  the first visit that does not return OK ends the function.
\<close>

fun visit_block_rows ::
  "(catalog_row \<Rightarrow> 'v \<Rightarrow> outcome \<times> 'v) \<Rightarrow> (catalog_row \<times> bool) list \<Rightarrow> 'v \<Rightarrow> outcome \<times> 'v" where
  "visit_block_rows f [] v = (Returns OK, v)"
| "visit_block_rows f ((row, selected) # rest) v =
     (if \<not> selected then visit_block_rows f rest v
      else
        (case f row v of
           (Returns OK, v') \<Rightarrow> visit_block_rows f rest v'
         | (r, v') \<Rightarrow> (r, v')))"

text \<open>
  The outer loop \<^verbatim>\<open>while (iter->HasNext())\<close>, written once for both visit functions.
  It runs as long as the iterator has rows, so with a block without room for a row it
  would not return: the result is \<open>None\<close> then. The calls of \<^verbatim>\<open>NextBlock\<close> are
  recorded in order.
\<close>

partial_function (option) visit_loop ::
  "env \<Rightarrow> scan_spec \<Rightarrow> row_block \<Rightarrow> (catalog_row \<Rightarrow> 'v \<Rightarrow> outcome \<times> 'v) \<Rightarrow> catalog_row list \<Rightarrow> 'v
     \<Rightarrow> fetch list \<Rightarrow> ((outcome \<times> 'v) \<times> fetch list) option" where
  "visit_loop e spec block f rest v fetched =
     (if \<not> HasNext rest then Some ((Returns OK, v), fetched)
      else
        (case NextBlock e spec block rest of
           (Error c m, rows, rest') \<Rightarrow>
             Some ((Returns (Error c m), v),
                   fetched @ [\<lparr> fetch_block = block, fetch_rows = length rows \<rparr>])
         | (OK, rows, rest') \<Rightarrow>
             (case visit_block_rows f rows v of
                (Returns OK, v') \<Rightarrow>
                  visit_loop e spec block f rest' v'
                    (fetched @ [\<lparr> fetch_block = block, fetch_rows = length rows \<rparr>])
              | (r, v') \<Rightarrow>
                  Some ((r, v'), fetched @ [\<lparr> fetch_block = block, fetch_rows = length rows \<rparr>]))))"

text \<open>
  \<^verbatim>\<open>VisitTables\<close> and \<^verbatim>\<open>VisitTablets\<close>. The result is the outcome, the state of the
  visitor, and the calls of \<^verbatim>\<open>NextBlock\<close> made.
\<close>

definition VisitTables ::
  "env \<Rightarrow> 'v table_visitor \<Rightarrow> sys_catalog \<Rightarrow> 'v \<Rightarrow> ((outcome \<times> 'v) \<times> fetch list) option" where
  "VisitTables e visitor s v =
     (let tables_entry = TABLES_ENTRY in
      (case find_column (cat_schema s) kSysCatalogTableColType of
         None \<Rightarrow> Some ((Aborts, v), [])
       | Some type_col \<Rightarrow>
           let pred_tables = \<lparr> pred_column = type_col, pred_lower = tables_entry, pred_upper = tables_entry \<rparr>;
               spec = [pred_tables]
           in
           (case tablet_peer s of
              None \<Rightarrow> Some ((Aborts, v), [])
            | Some p \<Rightarrow>
                if \<not> initted p then Some ((Aborts, v), [])
                else
                  (case NewRowIterator e (cat_schema s) of
                     Error c m \<Rightarrow> Some ((Returns (Error c m), v), [])
                   | OK \<Rightarrow>
                       (case IterInit e spec of
                          Error c m \<Rightarrow> Some ((Returns (Error c m), v), [])
                        | OK \<Rightarrow>
                            let arena = \<lparr> initial_buffer_size = 32 * 1024, max_buffer_size = 256 * 1024 \<rparr>;
                                block = \<lparr> block_schema = cat_schema s, block_capacity = 512,
                                          block_arena = arena \<rparr>
                            in visit_loop e spec block (VisitTableFromRow e (cat_schema s) visitor)
                                 (tablet_rows p) v [])))))"

definition VisitTablets ::
  "env \<Rightarrow> 'v tablet_visitor \<Rightarrow> sys_catalog \<Rightarrow> 'v \<Rightarrow> ((outcome \<times> 'v) \<times> fetch list) option" where
  "VisitTablets e visitor s v =
     (let tablets_entry = TABLETS_ENTRY in
      (case find_column (cat_schema s) kSysCatalogTableColType of
         None \<Rightarrow> Some ((Aborts, v), [])
       | Some type_col \<Rightarrow>
           let pred_tablets = \<lparr> pred_column = type_col, pred_lower = tablets_entry, pred_upper = tablets_entry \<rparr>;
               spec = [pred_tablets]
           in
           (case tablet_peer s of
              None \<Rightarrow> Some ((Aborts, v), [])
            | Some p \<Rightarrow>
                if \<not> initted p then Some ((Aborts, v), [])
                else
                  (case NewRowIterator e (cat_schema s) of
                     Error c m \<Rightarrow> Some ((Returns (Error c m), v), [])
                   | OK \<Rightarrow>
                       (case IterInit e spec of
                          Error c m \<Rightarrow> Some ((Returns (Error c m), v), [])
                        | OK \<Rightarrow>
                            let arena = \<lparr> initial_buffer_size = 32 * 1024, max_buffer_size = 256 * 1024 \<rparr>;
                                block = \<lparr> block_schema = cat_schema s, block_capacity = 512,
                                          block_arena = arena \<rparr>
                            in visit_loop e spec block (VisitTabletFromRow e (cat_schema s) visitor)
                                 (tablet_rows p) v [])))))"

section \<open>The client session\<close>


record insert_op =
  insert_table :: string
  insert_row :: string


















section \<open>What a row operation for a tablet looks like\<close>

text \<open>
  The row that \<^verbatim>\<open>AddTabletsToPB\<close> encodes for a tablet whose metadata serialized to
  \<open>buf\<close>, and the operation it appends for it.
\<close>

definition tablet_row :: "tablet_info \<Rightarrow> string \<Rightarrow> partial_row" where
  "tablet_row t buf =
     [(kSysCatalogTableColType, UInt8Cell TABLETS_ENTRY),
      (kSysCatalogTableColId, StringCell (tablet_id t)),
      (kSysCatalogTableColMetadata, StringCell buf)]"

definition tablet_op :: "env \<Rightarrow> op_type \<Rightarrow> tablet_info \<Rightarrow> op_type \<times> partial_row \<Rightarrow> bool" where
  "tablet_op e ty t op =
     (case SerializeTabletsEntry e (tablet_dirty_pb t) of
        None \<Rightarrow> False
      | Some buf \<Rightarrow> op = (ty, tablet_row t buf))"

section \<open>What a resolved quorum looks like\<close>

text \<open>
  The address the local peer is entered with, and a peer whose three fields are set.
\<close>

definition self_addr :: "master \<Rightarrow> host_port_pb" where
  "self_addr m = \<lparr> pb_host = hp_host (first_rpc_address m), pb_port = ucast (hp_port (first_rpc_address m)) \<rparr>"

definition resolved :: "string \<Rightarrow> host_port_pb \<Rightarrow> role \<Rightarrow> quorum_peer_pb" where
  "resolved u a r = \<lparr> permanent_uuid = Some u, last_known_addr = Some a, peer_role = Some r \<rparr>"

text \<open>The quorum of a master that is not distributed: one local LEADER peer.\<close>

definition standalone_quorum :: "string \<Rightarrow> quorum_pb" where
  "standalone_quorum u =
     \<lparr> seqno = 0, is_local = True,
       peers = [\<lparr> permanent_uuid = Some u, last_known_addr = None, peer_role = Some LEADER \<rparr>] \<rparr>"

section \<open>Visiting rows one after the other\<close>

text \<open>
  What a visit function is to do, in the words of its description: deserialize the
  metadata of a row and invoke the visitor with the row's id and the deserialized
  metadata; do so for each row of a list in order, and stop at the first failure, which
  is returned.
\<close>

definition visit_table :: "env \<Rightarrow> 'v table_visitor \<Rightarrow> catalog_row \<Rightarrow> 'v \<Rightarrow> status \<times> 'v" where
  "visit_table e visitor row v =
     (case ParseTablesEntry e (row_metadata row) of
        (Error c m, md) \<Rightarrow>
          (Error c ((''Unable to parse metadata field for table '' @ row_entry_id row) @ '': '' @ m), v)
      | (OK, md) \<Rightarrow> visitor (row_entry_id row) md v)"

definition visit_tablet :: "env \<Rightarrow> 'v tablet_visitor \<Rightarrow> catalog_row \<Rightarrow> 'v \<Rightarrow> status \<times> 'v" where
  "visit_tablet e visitor row v =
     (case ParseTabletsEntry e (row_metadata row) of
        (Error c m, md) \<Rightarrow>
          (Error c ((''Unable to parse metadata field for tablet '' @ row_entry_id row) @ '': '' @ m), v)
      | (OK, md) \<Rightarrow> visitor (tablets_entry_table_id md) (row_entry_id row) md v)"

fun visit_each :: "(catalog_row \<Rightarrow> 'v \<Rightarrow> status \<times> 'v) \<Rightarrow> catalog_row list \<Rightarrow> 'v \<Rightarrow> status \<times> 'v" where
  "visit_each f [] v = (OK, v)"
| "visit_each f (row # rows) v =
     (case f row v of
        (OK, v') \<Rightarrow> visit_each f rows v'
      | (Error c m, v') \<Rightarrow> (Error c m, v'))"

definition returned :: "status \<times> 'v \<Rightarrow> outcome \<times> 'v" where
  "returned r = (Returns (fst r), snd r)"

text \<open>The iterator and the tablet peer work: no call of theirs fails during the scan.\<close>

definition scan_works :: "env \<Rightarrow> sys_catalog \<Rightarrow> bool" where
  "scan_works e s =
     ((case tablet_peer s of None \<Rightarrow> False | Some p \<Rightarrow> initted p) \<and>
      cat_schema s = BuildTableSchema \<and>
      NewRowIterator e BuildTableSchema = OK \<and>
      (\<forall>spec. IterInit e spec = OK) \<and>
      (\<forall>rest. NextBlockStatus e rest = OK))"

text \<open>The block the description gives: 512 rows, on an arena of 32 KiB up to 256 KiB.\<close>

definition catalog_block :: row_block where
  "catalog_block =
     \<lparr> block_schema = BuildTableSchema, block_capacity = 512,
       block_arena = \<lparr> initial_buffer_size = 32768, max_buffer_size = 262144 \<rparr> \<rparr>"

definition stored_rows :: "sys_catalog \<Rightarrow> catalog_row list" where
  "stored_rows s = (case tablet_peer s of None \<Rightarrow> [] | Some p \<Rightarrow> tablet_rows p)"

text \<open>
  The calls of \<^verbatim>\<open>NextBlock\<close> fetch blocks of at most 512 rows into the block of the
  description: every call is made with that block and comes back with at least one and
  at most 512 rows, and together the calls fetch no more rows than there are.
\<close>

definition fetched_in_blocks :: "catalog_row list \<Rightarrow> fetch list \<Rightarrow> bool" where
  "fetched_in_blocks rows fetched =
     ((\<forall>x\<in>set fetched. fetch_block x = catalog_block \<and> 0 < fetch_rows x \<and> fetch_rows x \<le> 512) \<and>
      sum_list (map fetch_rows fetched) \<le> length rows)"

section \<open>A concrete catalog\<close>

text \<open>
  A catalog whose collaborators all succeed: the schema converts to its columns, metadata
  serializes to its body, the tablet peer accepts every write and reports no error.
\<close>

definition decode_status :: "app_status_pb \<Rightarrow> status" where
  "decode_status pb =
     (if pb_code pb = 0 then OK
      else if pb_code pb = 1 then Error NotFound (pb_message pb)
      else if pb_code pb = 2 then Error Corruption (pb_message pb)
      else Error RuntimeError (pb_message pb))"

definition plain_env :: env where
  "plain_env =
     \<lparr> SchemaToPB = (\<lambda>sch. (OK, cols sch)),
       StatusFromPB = decode_status,
       SerializeTablesEntry = (\<lambda>pb. Some (tables_entry_body pb)),
       SerializeTabletsEntry = (\<lambda>pb. Some (tablets_entry_body pb)),
       ParseTablesEntry = (\<lambda>buf. (OK, \<lparr> tables_entry_name = [], tables_entry_body = buf \<rparr>)),
       ParseTabletsEntry = (\<lambda>buf. (OK, \<lparr> tablets_entry_table_id = [], tablets_entry_body = buf \<rparr>)),
       SubmitWrite = (\<lambda>ws req. (OK, \<lparr> resp_error = None, resp_per_row_errors = [] \<rparr>)),
       NewRowIterator = (\<lambda>projection. OK),
       IterInit = (\<lambda>spec. OK),
       NextBlockStatus = (\<lambda>rest. OK) \<rparr>"

definition running_peer :: tablet_peer_state where
  "running_peer = \<lparr> initted = True, started = True, writes = [], tablet_rows = [] \<rparr>"

definition running_catalog :: sys_catalog where
  "running_catalog =
     \<lparr> tablet_peer = Some running_peer, cat_schema = BuildTableSchema,
       key_schema = \<lparr> cols = take 2 (cols BuildTableSchema), num_key_columns = 2 \<rparr>,
       logged = [] \<rparr>"

definition table_t1 :: table_info where
  "table_t1 = \<lparr> table_id = ''t1'', table_dirty_pb = \<lparr> tables_entry_name = ''orders'', tables_entry_body = ''m0'' \<rparr> \<rparr>"

definition tablet_p1 :: tablet_info where
  "tablet_p1 = \<lparr> tablet_id = ''p1'', tablet_dirty_pb = \<lparr> tablets_entry_table_id = ''t1'', tablets_entry_body = ''m1'' \<rparr> \<rparr>"

definition tablet_p2 :: tablet_info where
  "tablet_p2 = \<lparr> tablet_id = ''p2'', tablet_dirty_pb = \<lparr> tablets_entry_table_id = ''t1'', tablets_entry_body = ''m2'' \<rparr> \<rparr>"

text \<open>A tablet peer that answers with a tablet-level error and a per-row error at once.\<close>

definition both_errors :: write_response where
  "both_errors =
     \<lparr> resp_error = Some \<lparr> pb_code = 1, pb_message = ''tablet not found'' \<rparr>,
       resp_per_row_errors = [\<lparr> row_index = 0, row_error = \<lparr> pb_code = 2, pb_message = ''bad row'' \<rparr> \<rparr>] \<rparr>"

definition failing_env :: env where
  "failing_env = plain_env\<lparr> SubmitWrite := (\<lambda>ws req. (OK, both_errors)) \<rparr>"

definition row_errors_only :: write_response where
  "row_errors_only =
     \<lparr> resp_error = None,
       resp_per_row_errors = [\<lparr> row_index = 0, row_error = \<lparr> pb_code = 2, pb_message = ''bad row'' \<rparr> \<rparr>] \<rparr>"

definition row_failing_env :: env where
  "row_failing_env = plain_env\<lparr> SubmitWrite := (\<lambda>ws req. (OK, row_errors_only)) \<rparr>"

text \<open>
  A cluster in which every address converts and every server answers the uuid lookup, and
  a tablet that bootstraps, initializes and starts.
\<close>

definition plain_boot :: boot_env where
  "plain_boot =
     \<lparr> IsDistributed = (\<lambda>options. leader options \<or> follower_addresses options \<noteq> []),
       HostPortToPB = (\<lambda>hp. (OK, \<lparr> pb_host = hp_host hp, pb_port = ucast (hp_port hp) \<rparr>)),
       LookupUuid = (\<lambda>addr. case addr of
                        None \<Rightarrow> (Error NetworkError ''no address'', [])
                      | Some a \<Rightarrow> (OK, ''uuid-'' @ pb_host a)),
       VerifyQuorum = (\<lambda>q. OK),
       ShortDebugString = (\<lambda>p. ''peer''),
       SchemaToString = (\<lambda>sch. ''Schema''),
       table_name = ''sys.catalog'',
       kMinimumTerm = 0,
       BootstrapTablet = (\<lambda>tid. (OK, [])),
       PeerInit = (\<lambda>tid. OK),
       PeerStart = (\<lambda>tid. OK) \<rparr>"

definition host_a :: host_port where
  "host_a = \<lparr> hp_host = ''a'', hp_port = 7051 \<rparr>"

definition host_b :: host_port where
  "host_b = \<lparr> hp_host = ''b'', hp_port = 7051 \<rparr>"

definition host_l :: host_port where
  "host_l = \<lparr> hp_host = ''l'', hp_port = 7051 \<rparr>"

definition host_s :: host_port where
  "host_s = \<lparr> hp_host = ''s'', hp_port = 7051 \<rparr>"

definition follower_master :: master where
  "follower_master =
     \<lparr> opts = \<lparr> leader = False, follower_addresses = [host_a, host_b], leader_address = host_l \<rparr>,
       first_rpc_address = host_s, has_messenger = True \<rparr>"

definition standalone_master :: master where
  "standalone_master =
     \<lparr> opts = \<lparr> leader = False, follower_addresses = [], leader_address = \<lparr> hp_host = [], hp_port = 0 \<rparr> \<rparr>,
       first_rpc_address = host_s, has_messenger = True \<rparr>"

definition empty_fs :: fs_manager where
  "empty_fs = \<lparr> uuid = ''fs-uuid'', tmeta_files = Map.empty, cmeta_files = Map.empty, write_error = None \<rparr>"

definition null_catalog :: sys_catalog where
  "null_catalog =
     \<lparr> tablet_peer = None, cat_schema = \<lparr> cols = [], num_key_columns = 0 \<rparr>,
       key_schema = \<lparr> cols = [], num_key_columns = 0 \<rparr>, logged = [] \<rparr>"

definition catalog_meta :: "schema \<Rightarrow> tablet_metadata" where
  "catalog_meta sch =
     \<lparr> oid = kSysCatalogTabletId, meta_table_name = ''sys.catalog'', meta_schema = sch,
       start_key = [], end_key = [], remote_bootstrap_state = REMOTE_BOOTSTRAP_DONE \<rparr>"

text \<open>A file system on which the catalog was created before, with a committed seqno.\<close>

definition stored_cmeta :: "64 word \<Rightarrow> consensus_metadata_pb" where
  "stored_cmeta sq =
     \<lparr> committed_quorum = \<lparr> seqno = sq, is_local = False, peers = [] \<rparr>, current_term = 0 \<rparr>"

definition stored_fs :: "schema \<Rightarrow> 64 word \<Rightarrow> fs_manager" where
  "stored_fs sch sq =
     \<lparr> uuid = ''fs-uuid'',
       tmeta_files = [kSysCatalogTabletId \<mapsto> Good (catalog_meta sch)],
       cmeta_files = [kSysCatalogTabletId \<mapsto> Good (stored_cmeta sq)],
       write_error = None \<rparr>"

definition follower_quorum :: "64 word \<Rightarrow> quorum_pb" where
  "follower_quorum sq =
     \<lparr> seqno = sq, is_local = False,
       peers = [resolved ''uuid-a'' \<lparr> pb_host = ''a'', pb_port = 7051 \<rparr> FOLLOWER,
                resolved ''uuid-b'' \<lparr> pb_host = ''b'', pb_port = 7051 \<rparr> FOLLOWER,
                resolved ''uuid-s'' \<lparr> pb_host = ''s'', pb_port = 7051 \<rparr> FOLLOWER,
                resolved ''uuid-l'' \<lparr> pb_host = ''l'', pb_port = 7051 \<rparr> CANDIDATE] \<rparr>"

text \<open>A running catalog that stores one table and its two tablets.\<close>

definition three_rows :: "catalog_row list" where
  "three_rows =
     [\<lparr> row_entry_type = 0, row_entry_id = ''t1'', row_metadata = ''m0'' \<rparr>,
      \<lparr> row_entry_type = 1, row_entry_id = ''p1'', row_metadata = ''m1'' \<rparr>,
      \<lparr> row_entry_type = 1, row_entry_id = ''p2'', row_metadata = ''m2'' \<rparr>]"

definition loaded_catalog :: sys_catalog where
  "loaded_catalog = running_catalog\<lparr>tablet_peer := Some (running_peer\<lparr>tablet_rows := three_rows\<rparr>)\<rparr>"

text \<open>A new tablet, a new version of a stored tablet, and the batch that writes both.\<close>

definition tablet_p3 :: tablet_info where
  "tablet_p3 = \<lparr> tablet_id = ''p3'', tablet_dirty_pb = \<lparr> tablets_entry_table_id = ''t1'', tablets_entry_body = ''m3'' \<rparr> \<rparr>"

definition tablet_p1_changed :: tablet_info where
  "tablet_p1_changed = \<lparr> tablet_id = ''p1'', tablet_dirty_pb = \<lparr> tablets_entry_table_id = ''t1'', tablets_entry_body = ''m1b'' \<rparr> \<rparr>"

definition batch_request :: write_request where
  "batch_request =
     \<lparr> req_tablet_id = kSysCatalogTabletId,
       req_schema = cols BuildTableSchema,
       req_row_operations =
         [(INSERT, tablet_row tablet_p3 ''m3''), (UPDATE, tablet_row tablet_p1_changed ''m1b'')] \<rparr>"

definition rows_after_batch :: "catalog_row list" where
  "rows_after_batch =
     [\<lparr> row_entry_type = 0, row_entry_id = ''t1'', row_metadata = ''m0'' \<rparr>,
      \<lparr> row_entry_type = 1, row_entry_id = ''p1'', row_metadata = ''m1b'' \<rparr>,
      \<lparr> row_entry_type = 1, row_entry_id = ''p2'', row_metadata = ''m2'' \<rparr>,
      \<lparr> row_entry_type = 1, row_entry_id = ''p3'', row_metadata = ''m3'' \<rparr>]"

text \<open>Visitors that note the ids they are shown.\<close>


definition note_table :: "(string list) table_visitor" where
  "note_table tid md seen = (OK, seen @ [tid])"

definition note_tablet :: "(string list) tablet_visitor" where
  "note_tablet table tid md seen = (OK, seen @ [tid])"





section \<open>Verified properties\<close>

subsection \<open>Building and submitting a write\<close>

lemma SyncWrite_submitted:
  "submitted (snd (SyncWrite e req s)) = (case tablet_peer s of None \<Rightarrow> [] | Some p \<Rightarrow> writes p @ [req])"
  by (auto simp: SyncWrite_def TabletPeer_SubmitWrite_def submitted_def Let_def
        split: option.splits prod.splits status.splits)

lemma col_names_distinct:
  "kSysCatalogTableColType \<noteq> kSysCatalogTableColId"
  "kSysCatalogTableColType \<noteq> kSysCatalogTableColMetadata"
  "kSysCatalogTableColId \<noteq> kSysCatalogTableColMetadata"
  by (simp_all add: kSysCatalogTableColType_def kSysCatalogTableColId_def kSysCatalogTableColMetadata_def)

lemma SetCell_Some:
  "SetCell sch ty nm v row = (OK, row') \<Longrightarrow> row' = AList.update nm v row"
  by (auto simp: SetCell_def split: option.splits if_splits)

lemma set3:
  assumes "CHECK_OK_all
             [SetUInt8 sch kSysCatalogTableColType v1,
              SetString sch kSysCatalogTableColId v2,
              SetString sch kSysCatalogTableColMetadata v3] row = Some row'"
      and "row = [] \<or> map fst row = [kSysCatalogTableColType, kSysCatalogTableColId, kSysCatalogTableColMetadata]"
  shows "row' = [(kSysCatalogTableColType, UInt8Cell v1),
                 (kSysCatalogTableColId, StringCell v2),
                 (kSysCatalogTableColMetadata, StringCell v3)]"
proof -
  have r': "row' = AList.update kSysCatalogTableColMetadata (StringCell v3)
                 (AList.update kSysCatalogTableColId (StringCell v2)
                   (AList.update kSysCatalogTableColType (UInt8Cell v1) row))"
    using assms(1)
    by (auto simp: SetUInt8_def SetString_def split: prod.splits status.splits dest!: SetCell_Some)
  from assms(2) show ?thesis
  proof
    assume "row = []"
    with r' show ?thesis using col_names_distinct by simp
  next
    assume "map fst row = [kSysCatalogTableColType, kSysCatalogTableColId, kSysCatalogTableColMetadata]"
    then obtain x y z where "row = [(kSysCatalogTableColType, x), (kSysCatalogTableColId, y), (kSysCatalogTableColMetadata, z)]"
      by (auto simp: map_eq_Cons_conv)
    with r' show ?thesis using col_names_distinct by simp
  qed
qed

lemma AddTabletsToPB_loop_ok:
  "AddTabletsToPB_loop e sch ty tablets row ops = (Returns OK, ops') \<Longrightarrow>
   row = [] \<or> map fst row = [kSysCatalogTableColType, kSysCatalogTableColId, kSysCatalogTableColMetadata] \<Longrightarrow>
   \<exists>new. ops' = ops @ new \<and> list_all2 (tablet_op e ty) tablets new"
proof (induction tablets arbitrary: row ops)
  case Nil
  then show ?case by simp
next
  case (Cons t rest)
  from Cons.prems(1) obtain buf row1 where
    ser: "SerializeTabletsEntry e (tablet_dirty_pb t) = Some buf" and
    chk: "CHECK_OK_all
            [SetUInt8 sch kSysCatalogTableColType TABLETS_ENTRY,
             SetString sch kSysCatalogTableColId (tablet_id t),
             SetString sch kSysCatalogTableColMetadata buf] row = Some row1" and
    rec: "AddTabletsToPB_loop e sch ty rest row1 (ops @ [(ty, row1)]) = (Returns OK, ops')"
    by (auto simp: Status2_def split: option.splits)
  have row1: "row1 = tablet_row t buf"
    using set3 [OF chk Cons.prems(2)] by (simp add: tablet_row_def)
  then have inv: "row1 = [] \<or> map fst row1 = [kSysCatalogTableColType, kSysCatalogTableColId, kSysCatalogTableColMetadata]"
    by (simp add: tablet_row_def)
  from Cons.IH [OF rec inv] obtain new where
    new: "ops' = (ops @ [(ty, row1)]) @ new" "list_all2 (tablet_op e ty) rest new"
    by blast
  have "tablet_op e ty t (ty, row1)"
    using ser row1 by (simp add: tablet_op_def)
  with new show ?case
    by (intro exI [of _ "(ty, row1) # new"]) simp
qed

lemma AddTabletsToPB_ok:
  "AddTabletsToPB e sch tablets ty ops = (Returns OK, ops') \<Longrightarrow>
   \<exists>new. ops' = ops @ new \<and> list_all2 (tablet_op e ty) tablets new"
  unfolding AddTabletsToPB_def using AddTabletsToPB_loop_ok [of e sch ty tablets "[]" ops ops'] by simp


subsection \<open>The tablet a mutation addresses\<close>

text \<open>
  Whatever request \<^verbatim>\<open>AddTable\<close>, \<^verbatim>\<open>UpdateTable\<close> or \<^verbatim>\<open>DeleteTablets\<close> hands to the
  tablet peer is addressed to the catalog tablet; a request of \<^verbatim>\<open>DeleteTable\<close> is
  addressed to the name of the metadata column.
\<close>

lemma SyncWrite_targets:
  "req' \<in> set (submitted (snd (SyncWrite e req s))) \<Longrightarrow> req' \<notin> set (submitted s) \<Longrightarrow> req' = req"
  using SyncWrite_submitted [of e req s] by (auto simp: submitted_def split: option.splits)

lemma AddTable_targets_catalog_tablet:
  "req \<in> set (submitted (snd (AddTable e table s))) \<Longrightarrow> req \<notin> set (submitted s) \<Longrightarrow>
   req_tablet_id req = kSysCatalogTabletId"
  by (auto simp: AddTable_def Let_def empty_request_def
           split: option.splits prod.splits status.splits dest!: SyncWrite_targets)

lemma UpdateTable_targets_catalog_tablet:
  "req \<in> set (submitted (snd (UpdateTable e table s))) \<Longrightarrow> req \<notin> set (submitted s) \<Longrightarrow>
   req_tablet_id req = kSysCatalogTabletId"
  by (auto simp: UpdateTable_def Let_def empty_request_def
           split: option.splits prod.splits status.splits dest!: SyncWrite_targets)

lemma DeleteTablets_targets_catalog_tablet:
  "req \<in> set (submitted (snd (DeleteTablets e tablets s))) \<Longrightarrow> req \<notin> set (submitted s) \<Longrightarrow>
   req_tablet_id req = kSysCatalogTabletId"
  by (auto simp: DeleteTablets_def Let_def empty_request_def
           split: option.splits prod.splits status.splits dest!: SyncWrite_targets)

lemma DeleteTable_targets_metadata_name:
  "req \<in> set (submitted (snd (DeleteTable e table s))) \<Longrightarrow> req \<notin> set (submitted s) \<Longrightarrow>
   req_tablet_id req = kSysCatalogTableColMetadata"
  by (auto simp: DeleteTable_def Let_def empty_request_def
           split: option.splits prod.splits status.splits dest!: SyncWrite_targets)

text \<open>
  Claim C1. Every catalog mutation is to address its write to the catalog tablet
  \<open>''00000000000000000000000000000000''\<close>. \<^verbatim>\<open>DeleteTable\<close> does not: on a running
  catalog, deleting table \<open>t1\<close> submits a request whose tablet id is \<open>''metadata''\<close>,
  the value of \<^verbatim>\<open>kSysCatalogTableColMetadata\<close>, while \<^verbatim>\<open>AddTable\<close> of the same table
  on the same catalog submits one with the catalog tablet's id (and the row is stored).
\<close>

theorem DeleteTable_writes_to_metadata:
  "DeleteTable plain_env table_t1 running_catalog =
     (Returns OK,
      running_catalog\<lparr>tablet_peer :=
        Some (running_peer\<lparr>writes := [\<lparr> req_tablet_id = ''metadata'',
                 req_schema = cols BuildTableSchema,
                 req_row_operations =
                   [(DELETE, [(''entry_type'', UInt8Cell 0), (''entry_id'', StringCell ''t1'')])] \<rparr>]\<rparr>)\<rparr>) \<and>
   ''metadata'' \<noteq> kSysCatalogTabletId \<and>
   AddTable plain_env table_t1 running_catalog =
     (Returns OK,
      running_catalog\<lparr>tablet_peer :=
        Some (running_peer\<lparr>writes := [\<lparr> req_tablet_id = ''00000000000000000000000000000000'',
                 req_schema = cols BuildTableSchema,
                 req_row_operations =
                   [(INSERT, [(''entry_type'', UInt8Cell 0), (''entry_id'', StringCell ''t1''),
                              (''metadata'', StringCell ''m0'')])] \<rparr>],
           tablet_rows := [\<lparr> row_entry_type = 0, row_entry_id = ''t1'', row_metadata = ''m0'' \<rparr>]\<rparr>)\<rparr>)"
  by (simp add: DeleteTable_def AddTable_def SyncWrite_def TabletPeer_SubmitWrite_def response_status_def
        SetUInt8_def SetString_def SetCell_def find_column_def BuildTableSchema_def
        kSysCatalogTableColType_def kSysCatalogTableColId_def kSysCatalogTableColMetadata_def
        kSysCatalogTabletId_def TABLES_ENTRY_def write_commits_def apply_ops_def row_of_def key_of_def
        plain_env_def running_catalog_def running_peer_def table_t1_def empty_request_def Let_def)

subsection \<open>One write for a batch of tablets\<close>

lemma SyncWrite_effect:
  assumes "tablet_peer s = Some p" and "SyncWrite e req s = (r, s')"
  shows "submitted s' = submitted s @ [req] \<and>
         (if write_commits (SubmitWrite e (submitted s) req)
          then stored_rows s' = apply_ops (req_row_operations req) (stored_rows s) \<and> r = Returns OK
          else stored_rows s' = stored_rows s)"
proof -
  obtain st resp where a: "SubmitWrite e (writes p) req = (st, resp)"
    by (cases "SubmitWrite e (writes p) req")
  show ?thesis
  proof (cases st)
    case OK
    with assms a show ?thesis
      by (auto simp: SyncWrite_def TabletPeer_SubmitWrite_def response_status_def write_commits_def
            submitted_def stored_rows_def Let_def split: prod.splits option.splits)
  next
    case (Error c m)
    with assms a show ?thesis
      by (auto simp: SyncWrite_def TabletPeer_SubmitWrite_def write_commits_def
            submitted_def stored_rows_def Let_def)
  qed
qed

lemma SyncWrite_null_peer:
  "tablet_peer s = None \<Longrightarrow> SyncWrite e req s = (Aborts, s)"
  by (simp add: SyncWrite_def)

lemma set3_catalog_schema:
  "CHECK_OK_all
     [SetUInt8 BuildTableSchema kSysCatalogTableColType v1,
      SetString BuildTableSchema kSysCatalogTableColId v2,
      SetString BuildTableSchema kSysCatalogTableColMetadata v3] row \<noteq> None"
  by (simp add: SetUInt8_def SetString_def SetCell_def find_column_def BuildTableSchema_def
        kSysCatalogTableColType_def kSysCatalogTableColId_def kSysCatalogTableColMetadata_def)

lemma AddTabletsToPB_loop_total:
  "\<forall>t\<in>set tablets. SerializeTabletsEntry e (tablet_dirty_pb t) \<noteq> None \<Longrightarrow>
   \<exists>ops'. AddTabletsToPB_loop e BuildTableSchema ty tablets row ops = (Returns OK, ops')"
proof (induction tablets arbitrary: row ops)
  case Nil
  show ?case by simp
next
  case (Cons t rest)
  then obtain buf where buf: "SerializeTabletsEntry e (tablet_dirty_pb t) = Some buf" by auto
  obtain row' where row': "CHECK_OK_all
     [SetUInt8 BuildTableSchema kSysCatalogTableColType TABLETS_ENTRY,
      SetString BuildTableSchema kSysCatalogTableColId (tablet_id t),
      SetString BuildTableSchema kSysCatalogTableColMetadata buf] row = Some row'"
    using set3_catalog_schema by blast
  from Cons.IH [of row' "ops @ [(ty, row')]"] Cons.prems buf row' show ?case by simp
qed

text \<open>
  Claim C2. Whatever the two lists are, \<^verbatim>\<open>AddAndUpdateTablets\<close> either hands the tablet
  peer no request, and then no row of the tablet changes and the call does not return OK,
  or it hands it exactly one request in one \<^verbatim>\<open>SyncWrite\<close>, addressed to the catalog tablet,
  whose row operations are one INSERT per tablet to add followed by one UPDATE per tablet
  to update, each with the tablet's key and serialized metadata. Since the peer commits a
  write as a whole, the rows of the tablet afterwards are either the rows before (no row
  of the batch committed) or the rows before with every operation of the batch applied
  (every row committed, and the call returned OK). On a catalog with a tablet peer and
  the catalog schema, when the schema converts and every tablet serializes, the request
  is submitted.
\<close>

theorem AddAndUpdateTablets_single_write:
  assumes "AddAndUpdateTablets e tablets_to_add tablets_to_update s = (r, s')"
  shows "((submitted s' = submitted s \<and> stored_rows s' = stored_rows s \<and> r \<noteq> Returns OK) \<or>
          (\<exists>req ins upd.
             submitted s' = submitted s @ [req] \<and>
             req_tablet_id req = kSysCatalogTabletId \<and>
             req_row_operations req = ins @ upd \<and>
             list_all2 (tablet_op e INSERT) tablets_to_add ins \<and>
             list_all2 (tablet_op e UPDATE) tablets_to_update upd \<and>
             (if write_commits (SubmitWrite e (submitted s) req)
              then stored_rows s' = apply_ops (ins @ upd) (stored_rows s) \<and> r = Returns OK
              else stored_rows s' = stored_rows s))) \<and>
         (tablet_peer s \<noteq> None \<and> cat_schema s = BuildTableSchema \<and>
          fst (SchemaToPB e BuildTableSchema) = OK \<and>
          (\<forall>t\<in>set (tablets_to_add @ tablets_to_update). SerializeTabletsEntry e (tablet_dirty_pb t) \<noteq> None)
            \<longrightarrow> length (submitted s') = Suc (length (submitted s)))"
proof -
  obtain st spb where spb: "SchemaToPB e (cat_schema s) = (st, spb)" by (cases "SchemaToPB e (cat_schema s)")
  show ?thesis
  proof (cases st)
    case (Error c m)
    with assms spb show ?thesis by (auto simp: AddAndUpdateTablets_def Let_def)
  next
    case OK
    define r1ops where "r1ops = (if tablets_to_add \<noteq> []
                  then AddTabletsToPB e (cat_schema s) tablets_to_add INSERT []
                  else (Returns OK, []))"
    obtain r1 ops1 where r1: "r1ops = (r1, ops1)" by (cases r1ops)
    have r1_total: "r1 = Returns OK"
      if "cat_schema s = BuildTableSchema"
        and "\<forall>t\<in>set tablets_to_add. SerializeTabletsEntry e (tablet_dirty_pb t) \<noteq> None"
      using AddTabletsToPB_loop_total [OF that(2), of INSERT "[]" "[]"] r1 that(1)
      by (auto simp: r1ops_def AddTabletsToPB_def split: if_splits)
    show ?thesis
    proof (cases "r1 = Returns OK")
      case False
      with assms spb OK r1 r1_total show ?thesis
        by (auto simp: AddAndUpdateTablets_def Let_def empty_request_def r1ops_def cong: if_cong)
    next
      case True
      have ins: "list_all2 (tablet_op e INSERT) tablets_to_add ops1"
      proof (cases "tablets_to_add = []")
        case True
        with r1 show ?thesis by (simp add: r1ops_def)
      next
        case False
        with r1 \<open>r1 = Returns OK\<close> have "AddTabletsToPB e (cat_schema s) tablets_to_add INSERT [] = (Returns OK, ops1)"
          by (simp add: r1ops_def)
        from AddTabletsToPB_ok [OF this] show ?thesis by simp
      qed
      define r2ops where "r2ops = (if tablets_to_update \<noteq> []
                       then AddTabletsToPB e (cat_schema s) tablets_to_update UPDATE ops1
                       else (Returns OK, ops1))"
      obtain r2 ops2 where r2: "r2ops = (r2, ops2)" by (cases r2ops)
      have r2_total: "r2 = Returns OK"
        if "cat_schema s = BuildTableSchema"
          and "\<forall>t\<in>set tablets_to_update. SerializeTabletsEntry e (tablet_dirty_pb t) \<noteq> None"
        using AddTabletsToPB_loop_total [OF that(2), of UPDATE "[]" ops1] r2 that(1)
        by (auto simp: r2ops_def AddTabletsToPB_def split: if_splits)
      show ?thesis
      proof (cases "r2 = Returns OK")
        case False
        with assms spb OK r1 True r2 r2_total show ?thesis
          by (auto simp: AddAndUpdateTablets_def Let_def empty_request_def r1ops_def r2ops_def cong: if_cong)
      next
        case r2ok: True
        have "\<exists>upd. ops2 = ops1 @ upd \<and> list_all2 (tablet_op e UPDATE) tablets_to_update upd"
        proof (cases "tablets_to_update = []")
          case True
          with r2 show ?thesis by (simp add: r2ops_def)
        next
          case False
          with r2 r2ok have "AddTabletsToPB e (cat_schema s) tablets_to_update UPDATE ops1 = (Returns OK, ops2)"
            by (simp add: r2ops_def)
          from AddTabletsToPB_ok [OF this] show ?thesis .
        qed
        then obtain upd where upd: "ops2 = ops1 @ upd" "list_all2 (tablet_op e UPDATE) tablets_to_update upd"
          by blast
        define req where "req = \<lparr> req_tablet_id = kSysCatalogTabletId, req_schema = spb, req_row_operations = ops2 \<rparr>"
        have res: "SyncWrite e req s = (r, s')"
          using assms spb OK r1 True r2 r2ok
          by (simp add: AddAndUpdateTablets_def Let_def empty_request_def r1ops_def r2ops_def req_def cong: if_cong)
        show ?thesis
        proof (cases "tablet_peer s")
          case None
          with res SyncWrite_null_peer [OF None, of e req] show ?thesis by auto
        next
          case (Some p)
          from SyncWrite_effect [OF Some res] ins upd show ?thesis
            by (auto simp: req_def)
        qed
      qed
    qed
  qed
qed

theorem AddAndUpdateTablets_single_write_witness:
  "AddAndUpdateTablets plain_env [tablet_p3] [tablet_p1_changed] loaded_catalog =
     (Returns OK,
      loaded_catalog\<lparr>tablet_peer :=
        Some (running_peer\<lparr>writes := [batch_request], tablet_rows := rows_after_batch\<rparr>)\<rparr>) \<and>
   tablet_peer loaded_catalog \<noteq> None \<and> cat_schema loaded_catalog = BuildTableSchema \<and>
   fst (SchemaToPB plain_env BuildTableSchema) = OK \<and>
   SerializeTabletsEntry plain_env (tablet_dirty_pb tablet_p3) = Some ''m3'' \<and>
   SerializeTabletsEntry plain_env (tablet_dirty_pb tablet_p1_changed) = Some ''m1b'' \<and>
   write_commits (SubmitWrite plain_env (submitted loaded_catalog) batch_request) \<and>
   stored_rows loaded_catalog = three_rows \<and>
   apply_ops (req_row_operations batch_request) three_rows = rows_after_batch \<and>
   length (submitted (loaded_catalog\<lparr>tablet_peer :=
        Some (running_peer\<lparr>writes := [batch_request], tablet_rows := rows_after_batch\<rparr>)\<rparr>)) =
     Suc (length (submitted loaded_catalog)) \<and>
   (\<exists>ins upd.
      req_row_operations batch_request = ins @ upd \<and>
      list_all2 (tablet_op plain_env INSERT) [tablet_p3] ins \<and>
      list_all2 (tablet_op plain_env UPDATE) [tablet_p1_changed] upd \<and>
      stored_rows (loaded_catalog\<lparr>tablet_peer :=
          Some (running_peer\<lparr>writes := [batch_request], tablet_rows := rows_after_batch\<rparr>)\<rparr>)
        = apply_ops (ins @ upd) (stored_rows loaded_catalog))"
proof -
  have ap: "apply_ops (req_row_operations batch_request) three_rows = rows_after_batch"
    by (simp add: apply_ops_def batch_request_def three_rows_def rows_after_batch_def tablet_row_def
          row_of_def key_of_def row_key_def key_less_def tablet_p3_def tablet_p1_changed_def
          kSysCatalogTableColType_def kSysCatalogTableColId_def kSysCatalogTableColMetadata_def
          TABLETS_ENTRY_def)
  have run0: "AddAndUpdateTablets plain_env [tablet_p3] [tablet_p1_changed] loaded_catalog =
     (Returns OK,
      loaded_catalog\<lparr>tablet_peer :=
        Some (running_peer\<lparr>writes := [batch_request],
                tablet_rows := apply_ops (req_row_operations batch_request) three_rows\<rparr>)\<rparr>)"
    by (simp add: AddAndUpdateTablets_def AddTabletsToPB_def SyncWrite_def TabletPeer_SubmitWrite_def
          response_status_def write_commits_def
          SetUInt8_def SetString_def SetCell_def find_column_def BuildTableSchema_def
          kSysCatalogTableColType_def kSysCatalogTableColId_def kSysCatalogTableColMetadata_def
          plain_env_def loaded_catalog_def running_catalog_def running_peer_def
          tablet_p3_def tablet_p1_changed_def tablet_row_def batch_request_def
          empty_request_def Let_def)
  have run: "AddAndUpdateTablets plain_env [tablet_p3] [tablet_p1_changed] loaded_catalog =
     (Returns OK,
      loaded_catalog\<lparr>tablet_peer :=
        Some (running_peer\<lparr>writes := [batch_request], tablet_rows := rows_after_batch\<rparr>)\<rparr>)"
    using run0 by (simp only: ap)
  have h: "tablet_peer loaded_catalog \<noteq> None" "cat_schema loaded_catalog = BuildTableSchema"
      "fst (SchemaToPB plain_env BuildTableSchema) = OK"
      "\<forall>t\<in>set ([tablet_p3] @ [tablet_p1_changed]).
         SerializeTabletsEntry plain_env (tablet_dirty_pb t) \<noteq> None"
      "write_commits (SubmitWrite plain_env (submitted loaded_catalog) batch_request)"
      "stored_rows loaded_catalog = three_rows"
    by (simp_all add: loaded_catalog_def running_catalog_def plain_env_def write_commits_def
          stored_rows_def)
  have ser: "SerializeTabletsEntry plain_env (tablet_dirty_pb tablet_p3) = Some ''m3''"
      "SerializeTabletsEntry plain_env (tablet_dirty_pb tablet_p1_changed) = Some ''m1b''"
    by (simp_all add: plain_env_def tablet_p3_def tablet_p1_changed_def)
  have sub: "submitted loaded_catalog = []"
      "submitted (loaded_catalog\<lparr>tablet_peer :=
        Some (running_peer\<lparr>writes := [batch_request], tablet_rows := rows_after_batch\<rparr>)\<rparr>) = [batch_request]"
    by (simp_all add: submitted_def loaded_catalog_def running_catalog_def running_peer_def)
  note T = AddAndUpdateTablets_single_write [OF run]
  from T h have len: "length (submitted (loaded_catalog\<lparr>tablet_peer :=
        Some (running_peer\<lparr>writes := [batch_request], tablet_rows := rows_after_batch\<rparr>)\<rparr>)) =
     Suc (length (submitted loaded_catalog))"
    by blast
  from T obtain req ins upd where
      r: "submitted (loaded_catalog\<lparr>tablet_peer :=
        Some (running_peer\<lparr>writes := [batch_request], tablet_rows := rows_after_batch\<rparr>)\<rparr>) =
          submitted loaded_catalog @ [req]"
      and o: "req_row_operations req = ins @ upd"
        "list_all2 (tablet_op plain_env INSERT) [tablet_p3] ins"
        "list_all2 (tablet_op plain_env UPDATE) [tablet_p1_changed] upd"
      and c: "if write_commits (SubmitWrite plain_env (submitted loaded_catalog) req)
       then stored_rows (loaded_catalog\<lparr>tablet_peer :=
                Some (running_peer\<lparr>writes := [batch_request], tablet_rows := rows_after_batch\<rparr>)\<rparr>)
              = apply_ops (ins @ upd) (stored_rows loaded_catalog) \<and> Returns OK = Returns OK
       else stored_rows (loaded_catalog\<lparr>tablet_peer :=
                Some (running_peer\<lparr>writes := [batch_request], tablet_rows := rows_after_batch\<rparr>)\<rparr>)
              = stored_rows loaded_catalog"
    by blast
  from r sub have req: "req = batch_request" by simp
  from c h(5) req have rows: "stored_rows (loaded_catalog\<lparr>tablet_peer :=
                Some (running_peer\<lparr>writes := [batch_request], tablet_rows := rows_after_batch\<rparr>)\<rparr>)
              = apply_ops (ins @ upd) (stored_rows loaded_catalog)"
    by simp
  from o req rows have "\<exists>ins upd.
      req_row_operations batch_request = ins @ upd \<and>
      list_all2 (tablet_op plain_env INSERT) [tablet_p3] ins \<and>
      list_all2 (tablet_op plain_env UPDATE) [tablet_p1_changed] upd \<and>
      stored_rows (loaded_catalog\<lparr>tablet_peer :=
          Some (running_peer\<lparr>writes := [batch_request], tablet_rows := rows_after_batch\<rparr>)\<rparr>)
        = apply_ops (ins @ upd) (stored_rows loaded_catalog)"
    by blast
  with run h(1,2,3,5,6) ser ap len show ?thesis by blast
qed

subsection \<open>The distributed quorum\<close>

text \<open>
  Claim C3. Let the options name the followers A and B and the leader L, with
  \<open>leader = false\<close>, on a distributed master with a messenger.
  \<^verbatim>\<open>SetupDistributedQuorum\<close>, called with the initial seqno 0 as \<^verbatim>\<open>CreateNew\<close> does,
  returns OK with quorum \<open>q\<close> exactly when the three addresses convert, the remote
  lookups for A, B, the local address and L (in this order) all succeed, and the resulting
  quorum passes verification; \<open>q\<close> then has seqno 0, is not local, and has exactly four
  peers in this order: FOLLOWER for A, FOLLOWER for B, the local peer as FOLLOWER, and
  CANDIDATE for L, each with the uuid the lookup for its address returned.
\<close>

theorem SetupDistributedQuorum_follower_quorum:
  assumes opts: "follower_addresses (opts m) = [A, B]" "leader_address (opts m) = L"
      "\<not> leader (opts m)" "IsDistributed b (opts m)" "has_messenger m"
  shows "SetupDistributedQuorum b m (opts m) kInitialSeqno quorum = (Returns OK, q) \<longleftrightarrow>
     (\<exists>a bb l uA uB uS uL.
        HostPortToPB b A = (OK, a) \<and> HostPortToPB b B = (OK, bb) \<and> HostPortToPB b L = (OK, l) \<and>
        LookupUuid b (Some a) = (OK, uA) \<and> LookupUuid b (Some bb) = (OK, uB) \<and>
        LookupUuid b (Some (self_addr m)) = (OK, uS) \<and> LookupUuid b (Some l) = (OK, uL) \<and>
        q = \<lparr> seqno = 0, is_local = False,
              peers = [resolved uA a FOLLOWER, resolved uB bb FOLLOWER,
                       resolved uS (self_addr m) FOLLOWER, resolved uL l CANDIDATE] \<rparr> \<and>
        VerifyQuorum b q = OK)"
    (is "?run \<longleftrightarrow> ?good")
proof -
  note defs = SetupDistributedQuorum_def SetPermanentUuidForRemotePeer_def Let_def kInitialSeqno_def
    empty_quorum_def empty_peer_def self_addr_def resolved_def
  obtain sA a where hA: "HostPortToPB b A = (sA, a)" by (cases "HostPortToPB b A")
  obtain sB bb where hB: "HostPortToPB b B = (sB, bb)" by (cases "HostPortToPB b B")
  obtain sL l where hL: "HostPortToPB b L = (sL, l)" by (cases "HostPortToPB b L")
  obtain s1 uA where h1: "LookupUuid b (Some a) = (s1, uA)" by (cases "LookupUuid b (Some a)")
  obtain s2 uB where h2: "LookupUuid b (Some bb) = (s2, uB)" by (cases "LookupUuid b (Some bb)")
  obtain s3 uS where h3: "LookupUuid b (Some (self_addr m)) = (s3, uS)"
    by (cases "LookupUuid b (Some (self_addr m))")
  obtain s4 uL where h4: "LookupUuid b (Some l) = (s4, uL)" by (cases "LookupUuid b (Some l)")
  define q0 where "q0 = \<lparr> seqno = 0, is_local = False,
              peers = [resolved uA a FOLLOWER, resolved uB bb FOLLOWER,
                       resolved uS (self_addr m) FOLLOWER, resolved uL l CANDIDATE] \<rparr>"
  have eval: "SetupDistributedQuorum b m (opts m) kInitialSeqno quorum =
     (if sA \<noteq> OK then (Returns sA, quorum)
      else if sB \<noteq> OK then (Returns sB, quorum)
      else if sL \<noteq> OK then (Returns sL, quorum)
      else if s1 \<noteq> OK then
        (Returns (CloneAndPrepend (''Unable to resolve UUID for peer '' @ ShortDebugString b
           \<lparr> permanent_uuid = None, last_known_addr = Some a, peer_role = Some FOLLOWER \<rparr>) s1), quorum)
      else if s2 \<noteq> OK then
        (Returns (CloneAndPrepend (''Unable to resolve UUID for peer '' @ ShortDebugString b
           \<lparr> permanent_uuid = None, last_known_addr = Some bb, peer_role = Some FOLLOWER \<rparr>) s2), quorum)
      else if s3 \<noteq> OK then
        (Returns (CloneAndPrepend (''Unable to resolve UUID for peer '' @ ShortDebugString b
           \<lparr> permanent_uuid = None, last_known_addr = Some (self_addr m), peer_role = Some FOLLOWER \<rparr>) s3), quorum)
      else if s4 \<noteq> OK then
        (Returns (CloneAndPrepend (''Unable to resolve UUID for peer '' @ ShortDebugString b
           \<lparr> permanent_uuid = None, last_known_addr = Some l, peer_role = Some CANDIDATE \<rparr>) s4), quorum)
      else if VerifyQuorum b q0 \<noteq> OK then (Returns (VerifyQuorum b q0), quorum)
      else (Returns OK, q0))"
    using opts hA hB hL h1 h2 h3 h4
    apply (cases sA) prefer 2 apply (simp add: defs)
    apply (cases sB) prefer 2 apply (simp add: defs)
    apply (cases sL) prefer 2 apply (simp add: defs)
    apply (cases s1) prefer 2 apply (simp add: defs)
    apply (cases s2) prefer 2 apply (simp add: defs)
    apply (cases s3) prefer 2 apply (simp add: defs)
    apply (cases s4) prefer 2 apply (simp add: defs)
    apply (cases "VerifyQuorum b q0")
     apply (simp_all add: defs q0_def)
    done
  show ?thesis
  proof
    assume ?run
    with eval have "sA = OK \<and> sB = OK \<and> sL = OK \<and> s1 = OK \<and> s2 = OK \<and> s3 = OK \<and> s4 = OK \<and>
        VerifyQuorum b q0 = OK \<and> q = q0"
      by (cases s1; cases s2; cases s3; cases s4) (auto split: if_splits)
    with hA hB hL h1 h2 h3 h4 show ?good unfolding q0_def by blast
  next
    assume ?good
    then obtain a' bb' l' uA' uB' uS' uL' where g:
        "HostPortToPB b A = (OK, a')" "HostPortToPB b B = (OK, bb')" "HostPortToPB b L = (OK, l')"
        "LookupUuid b (Some a') = (OK, uA')" "LookupUuid b (Some bb') = (OK, uB')"
        "LookupUuid b (Some (self_addr m)) = (OK, uS')" "LookupUuid b (Some l') = (OK, uL')"
        "q = \<lparr> seqno = 0, is_local = False,
              peers = [resolved uA' a' FOLLOWER, resolved uB' bb' FOLLOWER,
                       resolved uS' (self_addr m) FOLLOWER, resolved uL' l' CANDIDATE] \<rparr>"
        "VerifyQuorum b q = OK"
      by blast
    with hA hB hL have e1: "sA = OK" "a' = a" "sB = OK" "bb' = bb" "sL = OK" "l' = l" by simp_all
    with g h1 h2 h3 h4 have e2: "s1 = OK" "uA' = uA" "s2 = OK" "uB' = uB" "s3 = OK" "uS' = uS" "s4 = OK" "uL' = uL"
      by simp_all
    from g e1 e2 have "q = q0" by (simp add: q0_def)
    with g e1 e2 eval show ?run by simp
  qed
qed

theorem SetupDistributedQuorum_follower_quorum_witness:
  "follower_addresses (opts follower_master) = [host_a, host_b] \<and>
   leader_address (opts follower_master) = host_l \<and>
   \<not> leader (opts follower_master) \<and> IsDistributed plain_boot (opts follower_master) \<and>
   has_messenger follower_master \<and>
   SetupDistributedQuorum plain_boot follower_master (opts follower_master) kInitialSeqno empty_quorum =
     (Returns OK, follower_quorum 0)"
proof -
  have h: "follower_addresses (opts follower_master) = [host_a, host_b]"
      "leader_address (opts follower_master) = host_l"
      "\<not> leader (opts follower_master)" "IsDistributed plain_boot (opts follower_master)"
      "has_messenger follower_master"
    by (simp_all add: follower_master_def plain_boot_def)
  have "\<exists>a bb l uA uB uS uL.
        HostPortToPB plain_boot host_a = (OK, a) \<and> HostPortToPB plain_boot host_b = (OK, bb) \<and>
        HostPortToPB plain_boot host_l = (OK, l) \<and>
        LookupUuid plain_boot (Some a) = (OK, uA) \<and> LookupUuid plain_boot (Some bb) = (OK, uB) \<and>
        LookupUuid plain_boot (Some (self_addr follower_master)) = (OK, uS) \<and>
        LookupUuid plain_boot (Some l) = (OK, uL) \<and>
        follower_quorum 0 = \<lparr> seqno = 0, is_local = False,
              peers = [resolved uA a FOLLOWER, resolved uB bb FOLLOWER,
                       resolved uS (self_addr follower_master) FOLLOWER, resolved uL l CANDIDATE] \<rparr> \<and>
        VerifyQuorum plain_boot (follower_quorum 0) = OK"
    by (simp add: plain_boot_def host_a_def host_b_def host_l_def host_s_def follower_master_def
          self_addr_def follower_quorum_def)
  with SetupDistributedQuorum_follower_quorum [OF h, of empty_quorum "follower_quorum 0"] h
  show ?thesis by blast
qed

subsection \<open>The seqno across restarts\<close>

lemma sint_succ:
  "sint (x :: 64 word) < 2 ^ 63 - 1 \<Longrightarrow> sint (x + 1) = sint x + 1"
proof -
  assume a: "sint x < 2 ^ 63 - 1"
  have lo: "- (2 ^ 63) \<le> sint x" using sint_ge [of x] by simp
  have "sint (x + 1) = signed_take_bit 63 (sint x + 1)"
    by (simp add: sint_word_ariths)
  also have "\<dots> = sint x + 1"
    using a lo by (simp add: signed_take_bit_int_eq_self)
  finally show ?thesis .
qed

lemma add_followers_seqno:
  "add_followers b hps q = (st, q') \<Longrightarrow> seqno q' = seqno q"
  by (induction hps arbitrary: q) (auto simp: Let_def split: prod.splits status.splits)

lemma resolve_peers_seqno:
  "resolve_peers b ps q = (st, q') \<Longrightarrow> seqno q' = seqno q"
  by (induction ps arbitrary: q) (auto split: prod.splits status.splits if_splits)

lemma SetupDistributedQuorum_seqno:
  "SetupDistributedQuorum b m options sq quorum = (Returns OK, q) \<Longrightarrow> seqno q = sq"
  by (auto simp: SetupDistributedQuorum_def Let_def empty_quorum_def
      split: if_splits prod.splits status.splits
      dest!: add_followers_seqno resolve_peers_seqno)

lemma TabletMetadata_Load_Inl:
  "TabletMetadata_Load fs mb = Inl st \<Longrightarrow> \<exists>c msg. st = Error c msg"
  by (auto simp: TabletMetadata_Load_def split: option.splits stored.splits)

lemma ConsensusMetadata_Load_Inl:
  "ConsensusMetadata_Load fs tid = Inl st \<Longrightarrow> \<exists>c msg. st = Error c msg"
  by (auto simp: ConsensusMetadata_Load_def split: option.splits stored.splits)

text \<open>
  Claim C4, as stated, fails at the largest \<^verbatim>\<open>int64\<close>: a distributed \<^verbatim>\<open>Load\<close> over a
  committed seqno of \<open>2\<^sup>6\<^sup>3 - 1\<close> succeeds and flushes a quorum whose seqno is
  \<open>- 2\<^sup>6\<^sup>3\<close>, which is smaller, not larger.
\<close>

theorem Load_seqno_wraps:
  "fst (Load plain_boot follower_master (stored_fs BuildTableSchema 0x7FFFFFFFFFFFFFFF) null_catalog) = Returns OK \<and>
   cmeta_files (stored_fs BuildTableSchema 0x7FFFFFFFFFFFFFFF) kSysCatalogTabletId =
     Some (Good (stored_cmeta 0x7FFFFFFFFFFFFFFF)) \<and>
   cmeta_files (fst (snd (Load plain_boot follower_master (stored_fs BuildTableSchema 0x7FFFFFFFFFFFFFFF) null_catalog)))
       kSysCatalogTabletId =
     Some (Good \<lparr> committed_quorum = follower_quorum 0x8000000000000000, current_term = 0 \<rparr>) \<and>
   sint (0x7FFFFFFFFFFFFFFF :: 64 word) = 9223372036854775807 \<and>
   sint (0x8000000000000000 :: 64 word) = - 9223372036854775808"
  by (simp add: Load_def Let_def TabletMetadata_Load_def ConsensusMetadata_Load_def Flush_def
        SetupTabletMasterBlock_def SetupTablet_def SetupDistributedQuorum_def
        SetPermanentUuidForRemotePeer_def empty_quorum_def empty_peer_def
        plain_boot_def follower_master_def host_a_def host_b_def host_l_def host_s_def
        stored_fs_def stored_cmeta_def catalog_meta_def follower_quorum_def resolved_def
        split: prod.splits)

text \<open>
  Claim C4, amended. A \<^verbatim>\<open>Load\<close> on a master that is not distributed leaves every
  consensus metadata record, and so every seqno, as it was. A distributed \<^verbatim>\<open>Load\<close>
  either fails before the flush, and then leaves the records as they were and does not
  return OK, or replaces the record of the loaded tablet by one with the same term whose
  quorum carries the old seqno plus one in \<^verbatim>\<open>int64\<close> arithmetic; whenever the old seqno
  is below \<open>2\<^sup>6\<^sup>3 - 1\<close> that is the next integer, so the committed seqno strictly
  increases. In particular every distributed \<^verbatim>\<open>Load\<close> that returns OK has bumped the
  seqno.
\<close>

theorem Load_seqno:
  assumes "Load b m fs s = (r, fs', s')"
  shows "(\<not> IsDistributed b (opts m) \<longrightarrow> cmeta_files fs' = cmeta_files fs) \<and>
         (IsDistributed b (opts m) \<longrightarrow>
            (cmeta_files fs' = cmeta_files fs \<and> r \<noteq> Returns OK) \<or>
            (\<exists>md old new.
               TabletMetadata_Load fs SetupTabletMasterBlock = Inr md \<and>
               cmeta_files fs (oid md) = Some (Good old) \<and>
               cmeta_files fs' = (cmeta_files fs)(oid md \<mapsto> Good new) \<and>
               current_term new = current_term old \<and>
               seqno (committed_quorum new) = seqno (committed_quorum old) + 1 \<and>
               (sint (seqno (committed_quorum old)) < 2 ^ 63 - 1 \<longrightarrow>
                  sint (seqno (committed_quorum new)) = sint (seqno (committed_quorum old)) + 1)))"
proof (cases "TabletMetadata_Load fs SetupTabletMasterBlock")
  case (Inl st)
  with assms TabletMetadata_Load_Inl [OF Inl] show ?thesis by (auto simp: Load_def)
next
  case (Inr md)
  show ?thesis
  proof (cases "meta_schema md \<noteq> BuildTableSchema")
    case True
    with assms Inr show ?thesis by (auto simp: Load_def Status2_def)
  next
    case ok: False
    show ?thesis
    proof (cases "IsDistributed b (opts m)")
      case False
      with assms Inr ok show ?thesis
        by (auto simp: Load_def Let_def split: prod.splits if_splits)
    next
      case dist: True
      show ?thesis
      proof (cases "ConsensusMetadata_Load fs (oid md)")
        case (Inl st)
        with assms Inr ok dist ConsensusMetadata_Load_Inl [OF Inl] show ?thesis
          by (auto simp: Load_def Let_def split: prod.splits if_splits)
      next
        case cm: (Inr cmeta)
        then have stored: "cmeta_files fs (oid md) = Some (Good (cmeta_pb cmeta))"
            and tid: "cmeta_tablet_id cmeta = oid md"
          by (auto simp: ConsensusMetadata_Load_def split: option.splits stored.splits)
        obtain rq q where sq: "SetupDistributedQuorum b m (opts m)
            (seqno (committed_quorum (cmeta_pb cmeta)) + 1) (committed_quorum (cmeta_pb cmeta)) = (rq, q)"
          by (cases "SetupDistributedQuorum b m (opts m)
            (seqno (committed_quorum (cmeta_pb cmeta)) + 1) (committed_quorum (cmeta_pb cmeta))")
        show ?thesis
        proof (cases "rq = Returns OK")
          case False
          with assms Inr ok dist cm sq show ?thesis
            by (auto simp: Load_def Let_def split: prod.splits if_splits outcome.splits status.splits)
        next
          case True
          with sq have sn: "seqno q = seqno (committed_quorum (cmeta_pb cmeta)) + 1"
            using SetupDistributedQuorum_seqno by blast
          define new where "new = (cmeta_pb cmeta)\<lparr>committed_quorum := q\<rparr>"
          have fs': "(cmeta_files fs' = cmeta_files fs \<and> r \<noteq> Returns OK) \<or>
                     cmeta_files fs' = (cmeta_files fs)(oid md \<mapsto> Good new)"
            using assms Inr ok dist cm sq True tid
            by (auto simp: Load_def Let_def Flush_def new_def split: prod.splits if_splits option.splits)
          have "seqno (committed_quorum new) = seqno (committed_quorum (cmeta_pb cmeta)) + 1"
            using sn by (simp add: new_def)
          moreover have "sint (seqno (committed_quorum (cmeta_pb cmeta))) < 2 ^ 63 - 1 \<longrightarrow>
              sint (seqno (committed_quorum new)) = sint (seqno (committed_quorum (cmeta_pb cmeta))) + 1"
            using sn sint_succ by (simp add: new_def)
          moreover have "current_term new = current_term (cmeta_pb cmeta)" by (simp add: new_def)
          ultimately show ?thesis using fs' stored dist Inr by blast
        qed
      qed
    qed
  qed
qed

theorem Load_seqno_witness:
  "IsDistributed plain_boot (opts follower_master) \<and>
   Load plain_boot follower_master (stored_fs BuildTableSchema 4) null_catalog =
     (Returns OK,
      (stored_fs BuildTableSchema 4)\<lparr>cmeta_files :=
         [kSysCatalogTabletId \<mapsto> Good \<lparr> committed_quorum = follower_quorum 5, current_term = 0 \<rparr>]\<rparr>,
      null_catalog\<lparr>tablet_peer := Some (fresh_peer\<lparr>initted := True, tablet_rows := [], started := True\<rparr>),
                   cat_schema := BuildTableSchema,
                   key_schema := CreateKeyProjection BuildTableSchema\<rparr>) \<and>
   (\<exists>md old new.
      TabletMetadata_Load (stored_fs BuildTableSchema 4) SetupTabletMasterBlock = Inr md \<and>
      cmeta_files (stored_fs BuildTableSchema 4) (oid md) = Some (Good old) \<and>
      [kSysCatalogTabletId \<mapsto> Good \<lparr> committed_quorum = follower_quorum 5, current_term = 0 \<rparr>] =
        (cmeta_files (stored_fs BuildTableSchema 4))(oid md \<mapsto> Good new) \<and>
      current_term new = current_term old \<and>
      seqno (committed_quorum new) = seqno (committed_quorum old) + 1 \<and>
      (sint (seqno (committed_quorum old)) < 2 ^ 63 - 1 \<longrightarrow>
         sint (seqno (committed_quorum new)) = sint (seqno (committed_quorum old)) + 1))"
proof -
  have d: "IsDistributed plain_boot (opts follower_master)"
    by (simp add: plain_boot_def follower_master_def)
  have run: "Load plain_boot follower_master (stored_fs BuildTableSchema 4) null_catalog =
     (Returns OK,
      (stored_fs BuildTableSchema 4)\<lparr>cmeta_files :=
         [kSysCatalogTabletId \<mapsto> Good \<lparr> committed_quorum = follower_quorum 5, current_term = 0 \<rparr>]\<rparr>,
      null_catalog\<lparr>tablet_peer := Some (fresh_peer\<lparr>initted := True, tablet_rows := [], started := True\<rparr>),
                   cat_schema := BuildTableSchema,
                   key_schema := CreateKeyProjection BuildTableSchema\<rparr>)"
    by (simp add: Load_def Let_def TabletMetadata_Load_def ConsensusMetadata_Load_def Flush_def
        SetupTabletMasterBlock_def SetupTablet_def SetupDistributedQuorum_def
        SetPermanentUuidForRemotePeer_def empty_quorum_def empty_peer_def
        plain_boot_def follower_master_def host_a_def host_b_def host_l_def host_s_def
        stored_fs_def stored_cmeta_def catalog_meta_def follower_quorum_def resolved_def)
  from Load_seqno [OF run] d show ?thesis using run by simp
qed

subsection \<open>Creating a standalone catalog\<close>

text \<open>
  Claim C5. On a master that is not distributed, \<^verbatim>\<open>CreateNew\<close> either fails before
  anything is written to the consensus metadata (and does not return OK), or it persists,
  under the catalog tablet's id, a consensus metadata record whose quorum has seqno 0,
  is local, and has exactly one peer: role LEADER, \<^verbatim>\<open>permanent_uuid\<close> the uuid of the
  \<^verbatim>\<open>FsManager\<close>.
\<close>

theorem CreateNew_standalone_quorum:
  assumes "\<not> IsDistributed b (opts m)" and "CreateNew b m fs s = (r, fs', s')"
  shows "(cmeta_files fs' = cmeta_files fs \<and> r \<noteq> Returns OK) \<or>
         cmeta_files fs' =
           (cmeta_files fs)(kSysCatalogTabletId \<mapsto>
              Good \<lparr> committed_quorum = standalone_quorum (uuid fs), current_term = kMinimumTerm b \<rparr>)"
  using assms
  by (auto simp: CreateNew_def Let_def TabletMetadata_CreateNew_def ConsensusMetadata_Create_def
        Flush_def SetupTabletMasterBlock_def standalone_quorum_def kInitialSeqno_def
        empty_quorum_def empty_peer_def
      split: option.splits prod.splits sum.splits status.splits if_splits)

theorem CreateNew_standalone_quorum_witness:
  "\<not> IsDistributed plain_boot (opts standalone_master) \<and>
   fst (CreateNew plain_boot standalone_master empty_fs null_catalog) = Returns OK \<and>
   cmeta_files (fst (snd (CreateNew plain_boot standalone_master empty_fs null_catalog))) =
     [kSysCatalogTabletId \<mapsto>
        Good \<lparr> committed_quorum =
                 \<lparr> seqno = 0, is_local = True,
                   peers = [\<lparr> permanent_uuid = Some ''fs-uuid'', last_known_addr = None,
                              peer_role = Some LEADER \<rparr>] \<rparr>,
               current_term = 0 \<rparr>]"
proof -
  have h1: "\<not> IsDistributed plain_boot (opts standalone_master)"
    by (simp add: plain_boot_def standalone_master_def)
  have h2: "fst (CreateNew plain_boot standalone_master empty_fs null_catalog) = Returns OK"
    by (simp add: CreateNew_def Let_def TabletMetadata_CreateNew_def ConsensusMetadata_Create_def
        Flush_def SetupTabletMasterBlock_def SetupTablet_def plain_boot_def standalone_master_def
        empty_fs_def split: prod.splits)
  obtain r fs' s' where run: "CreateNew plain_boot standalone_master empty_fs null_catalog = (r, fs', s')"
    by (cases "CreateNew plain_boot standalone_master empty_fs null_catalog")
  from CreateNew_standalone_quorum [OF h1 run] h2 run
  have "cmeta_files fs' = (cmeta_files empty_fs)(kSysCatalogTabletId \<mapsto>
              Good \<lparr> committed_quorum = standalone_quorum (uuid empty_fs),
                      current_term = kMinimumTerm plain_boot \<rparr>)"
    by simp
  with h1 h2 run show ?thesis
    by (simp add: standalone_quorum_def empty_fs_def plain_boot_def)
qed

subsection \<open>Loading a catalog with another schema\<close>

text \<open>
  Claim C6. When the tablet metadata loads and its stored schema is not the schema built by
  \<^verbatim>\<open>BuildTableSchema\<close>, \<^verbatim>\<open>Load\<close> returns Corruption (``Unexpected schema'') and changes
  neither the file system nor the catalog: \<^verbatim>\<open>SetupTablet\<close> is not reached, so no tablet
  peer is created, let alone started.
\<close>

theorem Load_schema_mismatch:
  assumes "TabletMetadata_Load fs SetupTabletMasterBlock = Inr md"
      and "meta_schema md \<noteq> BuildTableSchema"
  shows "Load b m fs s =
           (Returns (Status2 Corruption ''Unexpected schema'' (SchemaToString b (meta_schema md))), fs, s) \<and>
         tablet_peer (snd (snd (Load b m fs s))) = tablet_peer s"
  using assms by (simp add: Load_def)

theorem Load_schema_mismatch_witness:
  "TabletMetadata_Load (stored_fs (CreateKeyProjection BuildTableSchema) 0) SetupTabletMasterBlock =
     Inr (catalog_meta (CreateKeyProjection BuildTableSchema)) \<and>
   meta_schema (catalog_meta (CreateKeyProjection BuildTableSchema)) \<noteq> BuildTableSchema \<and>
   Load plain_boot standalone_master (stored_fs (CreateKeyProjection BuildTableSchema) 0) null_catalog =
     (Returns (Error Corruption ''Unexpected schema: Schema''),
      stored_fs (CreateKeyProjection BuildTableSchema) 0, null_catalog) \<and>
   tablet_peer (snd (snd (Load plain_boot standalone_master
      (stored_fs (CreateKeyProjection BuildTableSchema) 0) null_catalog))) = None"
proof -
  have h1: "TabletMetadata_Load (stored_fs (CreateKeyProjection BuildTableSchema) 0) SetupTabletMasterBlock =
     Inr (catalog_meta (CreateKeyProjection BuildTableSchema))"
    by (simp add: TabletMetadata_Load_def stored_fs_def SetupTabletMasterBlock_def)
  have h2: "meta_schema (catalog_meta (CreateKeyProjection BuildTableSchema)) \<noteq> BuildTableSchema"
    by (simp add: catalog_meta_def CreateKeyProjection_def BuildTableSchema_def)
  from Load_schema_mismatch [OF h1 h2, of plain_boot standalone_master null_catalog] h1 h2
  show ?thesis
    by (simp add: Status2_def plain_boot_def null_catalog_def)
qed

subsection \<open>What a successful start leaves behind\<close>

text \<open>
  After \<^verbatim>\<open>Load\<close> or \<^verbatim>\<open>CreateNew\<close> has returned OK the tablet peer is initialized and
  started and \<^verbatim>\<open>schema_\<close> is the catalog schema.
\<close>

lemma SetupTablet_running:
  "SetupTablet b md s = (Returns OK, s') \<Longrightarrow>
   cat_schema s' = meta_schema md \<and> (\<exists>p. tablet_peer s' = Some p \<and> initted p \<and> started p)"
  by (auto simp: SetupTablet_def Let_def fresh_peer_def split: prod.splits status.splits)

lemma Load_running:
  assumes "Load b m fs s = (Returns OK, fs', s')"
  shows "cat_schema s' = BuildTableSchema \<and> (\<exists>p. tablet_peer s' = Some p \<and> initted p \<and> started p)"
proof (cases "TabletMetadata_Load fs SetupTabletMasterBlock")
  case (Inl st)
  then have "\<exists>c msg. st = Error c msg"
    by (auto simp: TabletMetadata_Load_def split: option.splits stored.splits)
  with assms Inl show ?thesis by (auto simp: Load_def)
next
  case (Inr md)
  with assms have sch: "meta_schema md = BuildTableSchema"
    by (auto simp: Load_def Status2_def split: if_splits)
  with assms Inr obtain r where "SetupTablet b md s = (r, s')" and "r = Returns OK"
    by (auto simp: Load_def Let_def split: prod.splits if_splits)
  with SetupTablet_running [of b md s s'] sch show ?thesis by simp
qed

lemma CreateNew_running:
  assumes "CreateNew b m fs s = (Returns OK, fs', s')"
  shows "cat_schema s' = BuildTableSchema \<and> (\<exists>p. tablet_peer s' = Some p \<and> initted p \<and> started p)"
proof -
  from assms obtain md where "SetupTablet b md s = (Returns OK, s')" and "meta_schema md = BuildTableSchema"
    by (auto simp: CreateNew_def Let_def TabletMetadata_CreateNew_def ConsensusMetadata_Create_def Flush_def
        split: prod.splits if_splits sum.splits option.splits status.splits outcome.splits)
  with SetupTablet_running [of b md s s'] show ?thesis by simp
qed

subsection \<open>The status of a write\<close>

text \<open>
  Claim C7, as stated, fails: a response that carries a per-row error together with a
  tablet-level error does not make \<^verbatim>\<open>SyncWrite\<close> return Corruption. The tablet-level
  error is looked at first, and its decoded status (here NotFound) is returned.
\<close>

theorem SyncWrite_per_row_error_not_Corruption:
  "SubmitWrite failing_env [] empty_request = (OK, both_errors) \<and>
   length (resp_per_row_errors both_errors) = 1 \<and>
   fst (SyncWrite failing_env empty_request running_catalog) = Returns (Error NotFound ''tablet not found'')"
  by (simp add: SyncWrite_def TabletPeer_SubmitWrite_def response_status_def failing_env_def plain_env_def both_errors_def
        running_catalog_def running_peer_def decode_status_def Let_def)

text \<open>
  Claim C7, amended. For every response \<^verbatim>\<open>SyncWrite\<close> receives from an accepted write:
  if it carries a tablet-level error, the status decoded from that error is returned and
  nothing is logged; otherwise, if it carries at least one per-row error, one warning per
  failed row is logged and Corruption is returned; otherwise OK is returned.
\<close>

theorem SyncWrite_response_status:
  assumes "tablet_peer s = Some p" and "SubmitWrite e (writes p) req = (OK, resp)"
  shows "(\<forall>err. resp_error resp = Some err \<longrightarrow>
            fst (SyncWrite e req s) = Returns (StatusFromPB e err) \<and>
            logged (snd (SyncWrite e req s)) = logged s) \<and>
         (resp_error resp = None \<and> resp_per_row_errors resp \<noteq> [] \<longrightarrow>
            fst (SyncWrite e req s) = Returns (Error Corruption ''One or more rows failed to write'') \<and>
            logged (snd (SyncWrite e req s)) =
              logged s @ map (\<lambda>er. WARNING_row (row_index er) (StatusFromPB e (row_error er)))
                             (resp_per_row_errors resp)) \<and>
         (resp_error resp = None \<and> resp_per_row_errors resp = [] \<longrightarrow>
            fst (SyncWrite e req s) = Returns OK \<and>
            logged (snd (SyncWrite e req s)) = logged s)"
  using assms by (auto simp: SyncWrite_def TabletPeer_SubmitWrite_def response_status_def Let_def)

theorem SyncWrite_response_status_witness:
  "tablet_peer running_catalog = Some running_peer \<and>
   SubmitWrite row_failing_env [] empty_request = (OK, row_errors_only) \<and>
   resp_error row_errors_only = None \<and> resp_per_row_errors row_errors_only \<noteq> [] \<and>
   fst (SyncWrite row_failing_env empty_request running_catalog) =
     Returns (Error Corruption ''One or more rows failed to write'') \<and>
   logged (snd (SyncWrite row_failing_env empty_request running_catalog)) =
     [WARNING_row 0 (Error Corruption ''bad row'')]"
proof -
  have h1: "tablet_peer running_catalog = Some running_peer" by (simp add: running_catalog_def)
  have h2: "SubmitWrite row_failing_env (writes running_peer) empty_request = (OK, row_errors_only)"
    by (simp add: row_failing_env_def plain_env_def)
  have h3: "resp_error row_errors_only = None \<and> resp_per_row_errors row_errors_only \<noteq> []"
    by (simp add: row_errors_only_def)
  have h4: "StatusFromPB row_failing_env = decode_status" by (simp add: row_failing_env_def plain_env_def)
  from SyncWrite_response_status [OF h1 h2] h3
  have "fst (SyncWrite row_failing_env empty_request running_catalog) =
          Returns (Error Corruption ''One or more rows failed to write'') \<and>
        logged (snd (SyncWrite row_failing_env empty_request running_catalog)) =
          logged running_catalog @ map (\<lambda>er. WARNING_row (row_index er) (StatusFromPB row_failing_env (row_error er)))
                             (resp_per_row_errors row_errors_only)"
    by blast
  then show ?thesis using h1 h2 h3 h4
    by (simp add: row_errors_only_def decode_status_def running_catalog_def running_peer_def)
qed

subsection \<open>Visiting tables and tablets\<close>

lemma visit_block_rows_filter:
  "visit_block_rows f (map (\<lambda>row. (row, P row)) rows) v =
   visit_block_rows f (map (\<lambda>row. (row, True)) (filter P rows)) v"
proof (induction rows arbitrary: v)
  case Nil
  show ?case by simp
next
  case (Cons row rows)
  show ?case
  proof (cases "P row")
    case False
    with Cons.IH show ?thesis by simp
  next
    case True
    obtain r v' where fr: "f row v = (r, v')" by (cases "f row v")
    show ?thesis
    proof (cases "r = Returns OK")
      case True
      with \<open>P row\<close> fr Cons.IH show ?thesis by simp
    next
      case False
      with \<open>P row\<close> fr show ?thesis
        by (cases r; simp split: status.splits)
    qed
  qed
qed

lemma visit_block_rows_append:
  "visit_block_rows f (xs @ ys) v =
     (case visit_block_rows f xs v of
        (Returns OK, v') \<Rightarrow> visit_block_rows f ys v'
      | (r, v') \<Rightarrow> (r, v'))"
proof (induction xs arbitrary: v)
  case Nil
  show ?case by simp
next
  case (Cons x xs)
  obtain row sel where x: "x = (row, sel)" by (cases x)
  show ?case
  proof (cases sel)
    case False
    with x Cons.IH show ?thesis by simp
  next
    case True
    obtain r v' where fr: "f row v = (r, v')" by (cases "f row v")
    show ?thesis
    proof (cases "r = Returns OK")
      case True
      with \<open>sel\<close> x fr Cons.IH show ?thesis by simp
    next
      case False
      with \<open>sel\<close> x fr show ?thesis
        by (cases r; simp split: status.splits)
    qed
  qed
qed

lemma visit_block_rows_returned:
  "visit_block_rows (\<lambda>row v. returned (g row v)) (map (\<lambda>row. (row, True)) rows) v =
   returned (visit_each g rows v)"
proof (induction rows arbitrary: v)
  case Nil
  show ?case by (simp add: returned_def)
next
  case (Cons row rows)
  obtain st v' where g: "g row v = (st, v')" by (cases "g row v")
  with Cons.IH show ?case by (cases st) (simp_all add: returned_def)
qed

lemma VisitTableFromRow_catalog_schema:
  "VisitTableFromRow e BuildTableSchema visitor row v = returned (visit_table e visitor row v)"
proof -
  obtain st md where p: "ParseTablesEntry e (row_metadata row) = (st, md)"
    by (cases "ParseTablesEntry e (row_metadata row)")
  then show ?thesis
    by (cases st)
       (simp_all add: VisitTableFromRow_def visit_table_def returned_def ExtractString_def
          find_column_def row_cell_def BuildTableSchema_def kSysCatalogTableColType_def
          kSysCatalogTableColId_def kSysCatalogTableColMetadata_def split: prod.splits)
qed

lemma VisitTabletFromRow_catalog_schema:
  "VisitTabletFromRow e BuildTableSchema visitor row v = returned (visit_tablet e visitor row v)"
proof -
  obtain st md where p: "ParseTabletsEntry e (row_metadata row) = (st, md)"
    by (cases "ParseTabletsEntry e (row_metadata row)")
  then show ?thesis
    by (cases st)
       (simp_all add: VisitTabletFromRow_def visit_tablet_def returned_def ExtractString_def
          find_column_def row_cell_def BuildTableSchema_def kSysCatalogTableColType_def
          kSysCatalogTableColId_def kSysCatalogTableColMetadata_def split: prod.splits)
qed

lemma entry_type_predicate:
  "row_selected [\<lparr> pred_column = \<lparr> col_name = kSysCatalogTableColType, col_type = UINT8 \<rparr>,
                   pred_lower = entry, pred_upper = entry \<rparr>] =
   (\<lambda>row. row_entry_type row = entry)"
  by (rule ext) (auto simp: row_selected_def satisfies_def row_cell_def)

lemma visit_loop_blocks:
  assumes nb: "\<forall>rest. NextBlockStatus e rest = OK" and cap: "0 < block_capacity block"
  shows "\<exists>log.
           visit_loop e spec block f rest v fetched =
             Some (visit_block_rows f (map (\<lambda>row. (row, True)) (filter (row_selected spec) rest)) v,
                   fetched @ log) \<and>
           (\<forall>x\<in>set log. fetch_block x = block \<and> 0 < fetch_rows x \<and> fetch_rows x \<le> block_capacity block) \<and>
           sum_list (map fetch_rows log) \<le> length rest \<and>
           (fst (visit_block_rows f (map (\<lambda>row. (row, True)) (filter (row_selected spec) rest)) v) = Returns OK
              \<longrightarrow> sum_list (map fetch_rows log) = length rest)"
proof (induction rest arbitrary: v fetched rule: length_induct)
  case (1 rest)
  show ?case
  proof (cases "rest = []")
    case True
    then show ?thesis
      by (subst visit_loop.simps) (simp add: HasNext_def)
  next
    case False
    define n where "n = block_capacity block"
    define blk where "blk = map (\<lambda>row. (row, row_selected spec row)) (take n rest)"
    define fe where "fe = \<lparr> fetch_block = block, fetch_rows = length blk \<rparr>"
    have nbk: "NextBlock e spec block rest = (OK, blk, drop n rest)"
      using nb by (simp add: NextBlock_def blk_def n_def)
    have hn: "HasNext rest" using False by (simp add: HasNext_def)
    have len: "length blk = min n (length rest)" by (simp add: blk_def)
    have pos: "0 < length blk" using len cap False by (simp add: n_def)
    have shorter: "length (drop n rest) < length rest" using cap False by (simp add: n_def)
    have total: "length blk + length (drop n rest) = length rest" using len by simp
    obtain r v' where vb: "visit_block_rows f blk v = (r, v')" by (cases "visit_block_rows f blk v")
    have split: "visit_block_rows f (map (\<lambda>row. (row, True)) (filter (row_selected spec) rest)) v =
        (case visit_block_rows f blk v of
           (Returns OK, v') \<Rightarrow>
             visit_block_rows f (map (\<lambda>row. (row, True)) (filter (row_selected spec) (drop n rest))) v'
         | (r, v') \<Rightarrow> (r, v'))"
    proof -
      have "filter (row_selected spec) rest =
            filter (row_selected spec) (take n rest) @ filter (row_selected spec) (drop n rest)"
        by (metis append_take_drop_id filter_append)
      then show ?thesis
        by (simp add: visit_block_rows_append blk_def visit_block_rows_filter [symmetric])
    qed
    show ?thesis
    proof (cases "r = Returns OK")
      case True
      from "1.IH" shorter obtain log where
        l1: "visit_loop e spec block f (drop n rest) v' (fetched @ [fe]) =
             Some (visit_block_rows f (map (\<lambda>row. (row, True)) (filter (row_selected spec) (drop n rest))) v',
                   (fetched @ [fe]) @ log)"
        and l2: "\<forall>x\<in>set log. fetch_block x = block \<and> 0 < fetch_rows x \<and> fetch_rows x \<le> block_capacity block"
        and l3: "sum_list (map fetch_rows log) \<le> length (drop n rest)"
        and l4: "fst (visit_block_rows f (map (\<lambda>row. (row, True)) (filter (row_selected spec) (drop n rest))) v') = Returns OK
              \<longrightarrow> sum_list (map fetch_rows log) = length (drop n rest)"
        by blast
      have step: "visit_loop e spec block f rest v fetched =
                  visit_loop e spec block f (drop n rest) v' (fetched @ [fe])"
        using hn nbk vb True by (subst visit_loop.simps) (simp add: fe_def)
      have res: "visit_block_rows f (map (\<lambda>row. (row, True)) (filter (row_selected spec) rest)) v =
                 visit_block_rows f (map (\<lambda>row. (row, True)) (filter (row_selected spec) (drop n rest))) v'"
        using split vb True by simp
      have fe_ok: "fetch_block fe = block \<and> 0 < fetch_rows fe \<and> fetch_rows fe \<le> block_capacity block"
        using pos len by (simp add: fe_def n_def)
      show ?thesis
        apply (rule exI [of _ "fe # log"])
        using step l1 l2 l3 l4 res fe_ok total by (simp add: fe_def)
    next
      case False
      have step: "visit_loop e spec block f rest v fetched = Some ((r, v'), fetched @ [fe])"
        using hn nbk vb False by (subst visit_loop.simps) (cases r; simp add: fe_def split: status.splits)
      have res: "visit_block_rows f (map (\<lambda>row. (row, True)) (filter (row_selected spec) rest)) v = (r, v')"
        using split vb False by (cases r; simp split: status.splits)
      have fe_ok: "fetch_block fe = block \<and> 0 < fetch_rows fe \<and> fetch_rows fe \<le> block_capacity block"
        using pos len by (simp add: fe_def n_def)
      show ?thesis
        apply (rule exI [of _ "[fe]"])
        using step res fe_ok False len by (simp add: fe_def)
    qed
  qed
qed

text \<open>
  Claim C8. On a catalog whose tablet peer is initialized, whose schema is the catalog
  schema and whose iterator does not fail, \<^verbatim>\<open>VisitTables\<close> (\<^verbatim>\<open>VisitTablets\<close>) returns, and
  does what visiting one row after the other does on the stored rows whose \<open>entry_type\<close>
  is TABLES (TABLETS), the rows its range predicate selects: each such row's metadata is
  deserialized and the visitor is invoked with it, in key order, and the first
  deserialization or visitor failure is returned at once, with no further visit. Every
  call of \<^verbatim>\<open>NextBlock\<close> it makes hands over a block with room for 512 rows on an arena of
  32 KiB that grows to at most 256 KiB, and fetches between 1 and 512 rows; when all
  visits succeed the calls fetch every stored row.
\<close>

theorem Visit_scans_in_blocks:
  assumes "scan_works e s"
  shows "(\<exists>fetched.
            VisitTables e table_visitor s v =
              Some (returned (visit_each (visit_table e table_visitor)
                       (filter (\<lambda>row. row_entry_type row = TABLES_ENTRY) (stored_rows s)) v), fetched) \<and>
            fetched_in_blocks (stored_rows s) fetched \<and>
            (fst (visit_each (visit_table e table_visitor)
                       (filter (\<lambda>row. row_entry_type row = TABLES_ENTRY) (stored_rows s)) v) = OK
               \<longrightarrow> sum_list (map fetch_rows fetched) = length (stored_rows s))) \<and>
         (\<exists>fetched.
            VisitTablets e tablet_visitor s w =
              Some (returned (visit_each (visit_tablet e tablet_visitor)
                       (filter (\<lambda>row. row_entry_type row = TABLETS_ENTRY) (stored_rows s)) w), fetched) \<and>
            fetched_in_blocks (stored_rows s) fetched \<and>
            (fst (visit_each (visit_tablet e tablet_visitor)
                       (filter (\<lambda>row. row_entry_type row = TABLETS_ENTRY) (stored_rows s)) w) = OK
               \<longrightarrow> sum_list (map fetch_rows fetched) = length (stored_rows s)))"
proof -
  from assms obtain p where p: "tablet_peer s = Some p" "initted p"
    and sch: "cat_schema s = BuildTableSchema"
    and it: "NewRowIterator e BuildTableSchema = OK" "\<forall>spec. IterInit e spec = OK"
    and nb: "\<forall>rest. NextBlockStatus e rest = OK"
    by (auto simp: scan_works_def split: option.splits)
  have col: "find_column BuildTableSchema kSysCatalogTableColType =
      Some \<lparr> col_name = kSysCatalogTableColType, col_type = UINT8 \<rparr>"
    by (simp add: find_column_def BuildTableSchema_def)
  have rows: "stored_rows s = tablet_rows p" using p by (simp add: stored_rows_def)
  have cap: "0 < block_capacity catalog_block" by (simp add: catalog_block_def)
  have vt: "VisitTableFromRow e BuildTableSchema table_visitor =
        (\<lambda>row v. returned (visit_table e table_visitor row v))"
    by (intro ext) (rule VisitTableFromRow_catalog_schema)
  have vp: "VisitTabletFromRow e BuildTableSchema tablet_visitor =
        (\<lambda>row v. returned (visit_tablet e tablet_visitor row v))"
    by (intro ext) (rule VisitTabletFromRow_catalog_schema)
  have tables: "VisitTables e table_visitor s v =
        visit_loop e [\<lparr> pred_column = \<lparr> col_name = kSysCatalogTableColType, col_type = UINT8 \<rparr>,
                   pred_lower = TABLES_ENTRY, pred_upper = TABLES_ENTRY \<rparr>] catalog_block
          (\<lambda>row v. returned (visit_table e table_visitor row v)) (tablet_rows p) v []"
    using p sch it col by (simp add: VisitTables_def Let_def catalog_block_def vt)
  have tablets: "VisitTablets e tablet_visitor s w =
        visit_loop e [\<lparr> pred_column = \<lparr> col_name = kSysCatalogTableColType, col_type = UINT8 \<rparr>,
                   pred_lower = TABLETS_ENTRY, pred_upper = TABLETS_ENTRY \<rparr>] catalog_block
          (\<lambda>row v. returned (visit_tablet e tablet_visitor row v)) (tablet_rows p) w []"
    using p sch it col by (simp add: VisitTablets_def Let_def catalog_block_def vp)
  have fstr: "\<And>x. fst (returned x) = Returns OK \<longleftrightarrow> fst x = OK"
    by (simp add: returned_def)
  from visit_loop_blocks [OF nb cap, of "[\<lparr> pred_column = \<lparr> col_name = kSysCatalogTableColType, col_type = UINT8 \<rparr>,
                   pred_lower = TABLES_ENTRY, pred_upper = TABLES_ENTRY \<rparr>]"
          "\<lambda>row v. returned (visit_table e table_visitor row v)" "tablet_rows p" v "[]"]
  have t1: "\<exists>fetched.
            VisitTables e table_visitor s v =
              Some (returned (visit_each (visit_table e table_visitor)
                       (filter (\<lambda>row. row_entry_type row = TABLES_ENTRY) (stored_rows s)) v), fetched) \<and>
            fetched_in_blocks (stored_rows s) fetched \<and>
            (fst (visit_each (visit_table e table_visitor)
                       (filter (\<lambda>row. row_entry_type row = TABLES_ENTRY) (stored_rows s)) v) = OK
               \<longrightarrow> sum_list (map fetch_rows fetched) = length (stored_rows s))"
    by (simp add: tables rows entry_type_predicate visit_block_rows_returned fetched_in_blocks_def fstr)
       (auto simp: catalog_block_def)
  from visit_loop_blocks [OF nb cap, of "[\<lparr> pred_column = \<lparr> col_name = kSysCatalogTableColType, col_type = UINT8 \<rparr>,
                   pred_lower = TABLETS_ENTRY, pred_upper = TABLETS_ENTRY \<rparr>]"
          "\<lambda>row v. returned (visit_tablet e tablet_visitor row v)" "tablet_rows p" w "[]"]
  have t2: "\<exists>fetched.
            VisitTablets e tablet_visitor s w =
              Some (returned (visit_each (visit_tablet e tablet_visitor)
                       (filter (\<lambda>row. row_entry_type row = TABLETS_ENTRY) (stored_rows s)) w), fetched) \<and>
            fetched_in_blocks (stored_rows s) fetched \<and>
            (fst (visit_each (visit_tablet e tablet_visitor)
                       (filter (\<lambda>row. row_entry_type row = TABLETS_ENTRY) (stored_rows s)) w) = OK
               \<longrightarrow> sum_list (map fetch_rows fetched) = length (stored_rows s))"
    by (simp add: tablets rows entry_type_predicate visit_block_rows_returned fetched_in_blocks_def fstr)
       (auto simp: catalog_block_def)
  from t1 t2 show ?thesis by blast
qed

theorem Visit_scans_in_blocks_witness:
  "scan_works plain_env loaded_catalog \<and>
   (\<exists>fetched.
      VisitTables plain_env note_table loaded_catalog [] = Some ((Returns OK, [''t1'']), fetched) \<and>
      fetched_in_blocks three_rows fetched \<and> sum_list (map fetch_rows fetched) = 3) \<and>
   (\<exists>fetched.
      VisitTablets plain_env note_tablet loaded_catalog [] = Some ((Returns OK, [''p1'', ''p2'']), fetched) \<and>
      fetched_in_blocks three_rows fetched \<and> sum_list (map fetch_rows fetched) = 3)"
proof -
  have w: "scan_works plain_env loaded_catalog"
    by (simp add: scan_works_def plain_env_def loaded_catalog_def running_catalog_def running_peer_def)
  have rows: "stored_rows loaded_catalog = three_rows"
    by (simp add: stored_rows_def loaded_catalog_def running_catalog_def)
  have t: "visit_each (visit_table plain_env note_table)
             (filter (\<lambda>row. row_entry_type row = TABLES_ENTRY) three_rows) [] = (OK, [''t1''])"
    by (simp add: three_rows_def TABLES_ENTRY_def visit_table_def plain_env_def note_table_def)
  have p: "visit_each (visit_tablet plain_env note_tablet)
             (filter (\<lambda>row. row_entry_type row = TABLETS_ENTRY) three_rows) [] = (OK, [''p1'', ''p2''])"
    by (simp add: three_rows_def TABLETS_ENTRY_def visit_tablet_def plain_env_def note_tablet_def)
  have l: "length three_rows = 3" by (simp add: three_rows_def)
  from Visit_scans_in_blocks [OF w, of note_table "[]" note_tablet "[]"] w
  show ?thesis
    by (simp add: rows t p l returned_def)
qed

subsection \<open>Closing a session\<close>








text \<open>
  Claim C10. \<^verbatim>\<open>AddTablets\<close> is \<^verbatim>\<open>AddAndUpdateTablets\<close> with an empty list of tablets
  to update, and \<^verbatim>\<open>UpdateTablets\<close> is \<^verbatim>\<open>AddAndUpdateTablets\<close> with an empty list of
  tablets to add: on every catalog state they return the same outcome and leave the same
  state.
\<close>

theorem AddTablets_UpdateTablets_are_AddAndUpdateTablets:
  "AddTablets e tablets s = AddAndUpdateTablets e tablets [] s \<and>
   UpdateTablets e tablets s = AddAndUpdateTablets e [] tablets s"
  by (simp add: AddTablets_def UpdateTablets_def)

end
